theory Spec2Isabelle
  imports Complex_Main "HOL-Library.Multiset" "HOL-Library.Product_Lexorder"
begin

section \<open>Strings\<close>

text \<open>
  A JavaScript string is the list of its UTF-16 code units, each a number below 65536;
  \<open>length\<close>, \<open>take\<close> and \<open>drop\<close> count code units, as \<^verbatim>\<open>length\<close>, \<^verbatim>\<open>charAt\<close> and
  \<^verbatim>\<open>slice\<close> do. \<open>str\<close> writes an ASCII literal of the source.
\<close>

type_synonym code_unit = nat

type_synonym jstring = "code_unit list"

definition str :: "string \<Rightarrow> jstring" where
  "str s = map of_char s"

text \<open>
  White space as \<^verbatim>\<open>trim\<close> and the regular expression class \<^verbatim>\<open>\s\<close> take it: the
  ECMAScript WhiteSpace and LineTerminator code points (tab, line feed, vertical tab,
  form feed, carriage return, space, no-break space, U+1680, U+2000 to U+200A, U+2028,
  U+2029, U+202F, U+205F, U+3000 and U+FEFF). All of them are single code units.
\<close>

definition is_space :: "code_unit \<Rightarrow> bool" where
  "is_space c =
     (c \<in> set [0x09, 0x0A, 0x0B, 0x0C, 0x0D, 0x20, 0xA0, 0x1680, 0x2028, 0x2029, 0x202F,
                 0x205F, 0x3000, 0xFEFF] \<or> (0x2000 \<le> c \<and> c \<le> 0x200A))"

definition trim :: "jstring \<Rightarrow> jstring" where
  "trim s = rev (dropWhile is_space (rev (dropWhile is_space s)))"

text \<open>Case conversion of the letters A-Z and a-z.\<close>

definition lower_unit :: "code_unit \<Rightarrow> code_unit" where
  "lower_unit c = (if 0x41 \<le> c \<and> c \<le> 0x5A then c + 0x20 else c)"

definition upper_unit :: "code_unit \<Rightarrow> code_unit" where
  "upper_unit c = (if 0x61 \<le> c \<and> c \<le> 0x7A then c - 0x20 else c)"

definition is_ascii :: "jstring \<Rightarrow> bool" where
  "is_ascii s = list_all (\<lambda>c. c < 0x80) s"

text \<open>
  \<^verbatim>\<open>split(/\s+/)\<close>: the pieces between maximal runs of white space. A string that starts
  or ends with white space yields an empty first or last piece, as in JavaScript.
\<close>

function split_ws :: "jstring \<Rightarrow> jstring list" where
  "split_ws s =
     (let tok = takeWhile (\<lambda>c. \<not> is_space c) s;
          rest = dropWhile (\<lambda>c. \<not> is_space c) s
      in if rest = [] then [tok] else tok # split_ws (dropWhile is_space rest))"
  by pat_completeness auto
termination
proof (relation "measure length")
  show "wf (measure length)" by simp
next
  fix s :: jstring and tok rest
  assume r: "rest = dropWhile (\<lambda>c. \<not> is_space c) s" and ne: "rest \<noteq> []"
  have "is_space (hd rest)" using r ne hd_dropWhile [of "\<lambda>c. \<not> is_space c" s] by auto
  then have "dropWhile is_space rest = dropWhile is_space (tl rest)"
    using ne by (cases rest) auto
  then have "length (dropWhile is_space rest) \<le> length (tl rest)"
    using length_dropWhile_le [of is_space "tl rest"] by simp
  moreover have "length (tl rest) < length rest" using ne by (cases rest) auto
  moreover have "length rest \<le> length s" using r by (simp add: length_dropWhile_le)
  ultimately show "(dropWhile is_space rest, s) \<in> measure length" by simp
qed

declare split_ws.simps [simp del]

text \<open>\<^verbatim>\<open>split('\n')\<close>\<close>

fun split_lines :: "jstring \<Rightarrow> jstring list" where
  "split_lines [] = [[]]"
| "split_lines (c # cs) =
     (if c = 0x0A then [] # split_lines cs
      else (case split_lines cs of
              [] \<Rightarrow> [[c]]
            | l # ls \<Rightarrow> (c # l) # ls))"

text \<open>\<^verbatim>\<open>xs.join(sep)\<close>\<close>

fun join :: "jstring \<Rightarrow> jstring list \<Rightarrow> jstring" where
  "join sep [] = []"
| "join sep [x] = x"
| "join sep (x # y # ys) = x @ sep @ join sep (y # ys)"

text \<open>The decimal numeral of a natural number, as a template literal prints a length.\<close>

fun show_nat :: "nat \<Rightarrow> jstring" where
  "show_nat n =
     (if n < 10 then [0x30 + n]
      else show_nat (n div 10) @ [0x30 + n mod 10])"

declare show_nat.simps [simp del]

text \<open>JavaScript truthiness of an optional string: absent and empty are falsy.\<close>

definition truthy :: "jstring option \<Rightarrow> bool" where
  "truthy s = (case s of None \<Rightarrow> False | Some t \<Rightarrow> t \<noteq> [])"

section \<open>Numbers\<close>

text \<open>
  A value of the runtime's number type: a finite double with its exact value, an
  infinity, or NaN. The two zeros are one value; no operation below tells them apart.
  The arithmetic of the runtime (rounding, overflow, NaN) is a parameter of the
  environment; what is defined here is what no rounding affects.
\<close>

datatype number = Fin real | PosInf | NegInf | NaN

text \<open>\<^verbatim>\<open>x > 0\<close>\<close>

definition num_pos :: "number \<Rightarrow> bool" where
  "num_pos x = (case x of Fin v \<Rightarrow> v > 0 | PosInf \<Rightarrow> True | NegInf \<Rightarrow> False | NaN \<Rightarrow> False)"

text \<open>\<^verbatim>\<open>Math.min(1, x)\<close>\<close>

definition num_min1 :: "number \<Rightarrow> number" where
  "num_min1 x =
     (case x of Fin v \<Rightarrow> Fin (min 1 v) | PosInf \<Rightarrow> Fin 1 | NegInf \<Rightarrow> NegInf | NaN \<Rightarrow> NaN)"

text \<open>
  The order of the numbers that are not NaN, as a key that grows as the number falls:
  sorting by this key in ascending order is sorting the numbers in descending order.
\<close>

definition desc_key :: "number \<Rightarrow> int \<times> real" where
  "desc_key x =
     (case x of PosInf \<Rightarrow> (0, 0) | Fin v \<Rightarrow> (1, - v) | NegInf \<Rightarrow> (2, 0) | NaN \<Rightarrow> (3, 0))"


section \<open>Data model\<close>

text \<open>
  The interfaces of \<^verbatim>\<open>mongodb.ts\<close> and \<^verbatim>\<open>agents.ts\<close>, with the fields the pipeline reads
  or writes. A number held in a document or written as a literal in the source is the
  \<^typ>\<open>real\<close> of its decimal notation. An optional field is an \<^typ>\<open>'a option\<close>.
\<close>

datatype error = Error jstring | SyntaxError jstring | TypeError jstring | StoreError jstring

record req_skill =
  rs_name :: jstring
  weight :: real

record constraint =
  c_type :: jstring
  c_value :: jstring

record requirements =
  skills :: "req_skill list"
  constraints :: "constraint list"
  intent :: jstring
  summary :: jstring

record expert_skill =
  sk_name :: jstring
  sk_level :: jstring
  yearsExp :: real

record availability =
  timezone :: jstring
  hoursPerWeek :: real
  status :: jstring

record verification =
  profileComplete :: bool
  hasExternalLinks :: bool
  availabilityConfirmed :: bool

record expert =
  e_id :: "jstring option"
  e_name :: jstring
  title :: jstring
  bio :: jstring
  e_skills :: "expert_skill list"
  linkedIn :: "jstring option"
  github :: "jstring option"
  e_availability :: "availability option"
  renownLevel :: "jstring option"
  vectorSearchScore :: "real option"
  verified :: "bool option"
  verificationDetails :: "verification option"

section \<open>Results and exceptions\<close>

text \<open>
  A call that may throw returns \<open>error + 'a\<close>, with \<open>Inl\<close> the exception. \<open>sbind\<close> is
  sequencing, \<open>scatch\<close> is \<^verbatim>\<open>try { ... } catch (error) { ... }\<close>.
\<close>

definition sbind :: "error + 'a \<Rightarrow> ('a \<Rightarrow> error + 'b) \<Rightarrow> error + 'b" where
  "sbind r f = (case r of Inl e \<Rightarrow> Inl e | Inr a \<Rightarrow> f a)"

definition scatch :: "error + 'a \<Rightarrow> (error \<Rightarrow> error + 'a) \<Rightarrow> error + 'a" where
  "scatch r h = (case r of Inl e \<Rightarrow> h e | Inr a \<Rightarrow> Inr a)"

section \<open>Stored documents\<close>

datatype agent_type = Orchestrator | Analyst | Scout | Verifier | Recommender

datatype query_status = Processing | Completed | Failed

datatype task_status = Pending | In_progress | Task_completed | Task_failed

record agent_message =
  m_agent :: agent_type
  m_message :: jstring
  m_data :: "requirements option"
  m_timestamp :: nat

record expert_match =
  em_expert :: expert
  matchScore :: number
  reasoning :: "jstring list"
  matchedBy :: agent_type

record query_record =
  queryId :: jstring
  rawQuery :: jstring
  parsedRequirements :: "requirements option"
  agentConversation :: "agent_message list"
  results :: "jstring list"
  q_status :: query_status
  q_createdAt :: nat
  q_completedAt :: "nat option"

record task_record =
  taskId :: jstring
  t_queryId :: jstring
  agents :: "agent_type list"
  t_status :: task_status
  steps :: "jstring list"
  startedAt :: nat
  t_completedAt :: "nat option"

record final_result =
  fr_queryId :: jstring
  matches :: "expert_match list"
  conversation :: "agent_message list"

record result_entry =
  queryHash :: jstring
  originalQuery :: jstring
  r_result :: final_result
  r_createdAt :: nat
  expiresAt :: nat

record embedding_entry =
  textHash :: jstring
  text_preview :: jstring
  embedding :: "real list"
  c_createdAt :: nat

text \<open>The collections of the store, each in its natural (insertion) order.\<close>

record database =
  experts :: "expert list"
  queries :: "query_record list"
  agent_tasks :: "task_record list"
  cache_embeddings :: "embedding_entry list"
  cache_search_results :: "result_entry list"

section \<open>External collaborators\<close>

text \<open>
  What the code calls but does not define is a field of the environment: the HTTP
  endpoints of the two providers, \<^verbatim>\<open>JSON.parse\<close>, the hash function, \<^verbatim>\<open>Math.random\<close>,
  the regular expression engine, the vector index, number formatting, the faults of
  the store, the case conversion of strings that are not ASCII, the arithmetic of
  doubles (\<open>num_lit\<close> is the double a decimal denotes) and the order in which
  \<^verbatim>\<open>Array.prototype.sort\<close> leaves an array when the comparator is not consistent.
\<close>

record chat_message =
  role :: jstring
  content :: jstring

record chat_options =
  o_model :: "jstring option"
  o_temperature :: "real option"
  o_maxTokens :: "nat option"
  o_jsonMode :: "bool option"

record fireworks_request =
  rq_key :: jstring
  rq_model :: jstring
  rq_messages :: "chat_message list"
  rq_temperature :: real
  rq_max_tokens :: nat
  rq_json_object :: bool

text \<open>
  A response of the completion endpoint: \<^verbatim>\<open>response.ok\<close>, \<^verbatim>\<open>response.text()\<close> and
  \<^verbatim>\<open>response.json()\<close> read under the interface \<^verbatim>\<open>FireworksResponse\<close>, as the list of
  the \<^verbatim>\<open>message.content\<close> of its choices.
\<close>

record fireworks_response =
  fw_ok :: bool
  fw_text :: jstring
  fw_json :: "error + jstring list"

text \<open>
  A response of the embedding endpoint: \<^verbatim>\<open>response.ok\<close>, \<^verbatim>\<open>response.statusText\<close> and
  \<^verbatim>\<open>response.json()\<close> as the list of the \<^verbatim>\<open>embedding\<close> fields of \<^verbatim>\<open>data.data\<close>.
\<close>

record voyage_response =
  v_ok :: bool
  v_statusText :: jstring
  v_json :: "error + real list list"

text \<open>
  What \<^verbatim>\<open>parseQuery\<close> reads of the value \<^verbatim>\<open>JSON.parse\<close> returns: whether
  \<^verbatim>\<open>parsed?.skills\<close> and \<^verbatim>\<open>parsed?.constraints\<close> are arrays (with their elements under
  the declared TypeScript type), and the fields \<^verbatim>\<open>intent\<close> and \<^verbatim>\<open>summary\<close>. A parsed
  value that is not an object has no such field.
\<close>

datatype 'a js_array = NotArray | IsArray "'a list"

record parsed_json =
  pj_skills :: "req_skill js_array"
  pj_constraints :: "constraint js_array"
  pj_intent :: "jstring option"
  pj_summary :: "jstring option"

record env =
  fireworks_api_key :: "jstring option"
  fireworks_fetch :: "fireworks_request \<Rightarrow> error + fireworks_response"
  json_parse :: "jstring \<Rightarrow> error + parsed_json"
  voyage_api_key :: "jstring option"
  voyage_fetch :: "jstring \<Rightarrow> jstring \<Rightarrow> error + voyage_response"
  sha256 :: "jstring \<Rightarrow> jstring"
  random :: "nat \<Rightarrow> real"
  regexp_i :: "jstring \<Rightarrow> error + (jstring \<Rightarrow> bool)"
  vector_search :: "real list \<Rightarrow> expert list \<Rightarrow> error + (expert \<times> real) list"
  toFixed0 :: "number \<Rightarrow> jstring"
  store_fault :: "nat \<Rightarrow> error option"
  unicode_toLowerCase :: "jstring \<Rightarrow> jstring"
  unicode_toUpperCase :: "jstring \<Rightarrow> jstring"
  num_lit :: "real \<Rightarrow> number"
  num_add :: "number \<Rightarrow> number \<Rightarrow> number"
  num_mul :: "number \<Rightarrow> number \<Rightarrow> number"
  num_div :: "number \<Rightarrow> number \<Rightarrow> number"
  unspecified_sort :: "expert_match list \<Rightarrow> expert_match list"

section \<open>Case conversion\<close>

text \<open>
  \<^verbatim>\<open>String.prototype.toLowerCase\<close> and \<^verbatim>\<open>toUpperCase\<close>. On a string of ASCII code units
  they convert the letters A-Z and a-z and nothing else; on any other string the result
  is what the Unicode tables of the runtime give, a parameter.
\<close>

definition toLowerCase :: "env \<Rightarrow> jstring \<Rightarrow> jstring" where
  "toLowerCase E s = (if is_ascii s then map lower_unit s else unicode_toLowerCase E s)"

definition toUpperCase :: "env \<Rightarrow> jstring \<Rightarrow> jstring" where
  "toUpperCase E s = (if is_ascii s then map upper_unit s else unicode_toUpperCase E s)"

section \<open>Recommender: scoring\<close>

text \<open>\<^verbatim>\<open>requirements?.constraints.find(c => c.type === 'renown')\<close>\<close>

definition renownConstraint :: "requirements option \<Rightarrow> constraint option" where
  "renownConstraint reqs =
     (case reqs of
        None \<Rightarrow> None
      | Some r \<Rightarrow> find (\<lambda>c. c_type c = str ''renown'') (constraints r))"

text \<open>\<^verbatim>\<open>expert.renownLevel || 'hidden'\<close>: an absent or empty classification is falsy.\<close>

definition actualRenown :: "expert \<Rightarrow> jstring" where
  "actualRenown e =
     (case renownLevel e of
        None \<Rightarrow> str ''hidden''
      | Some l \<Rightarrow> if l = [] then str ''hidden'' else l)"

definition calculateRenownMatch :: "env \<Rightarrow> expert \<Rightarrow> requirements option \<Rightarrow> real" where
  "calculateRenownMatch E e reqs =
     (case renownConstraint reqs of
        None \<Rightarrow> 0.5
      | Some rc \<Rightarrow>
          (let requested = toLowerCase E (c_value rc);
               actual = actualRenown e
           in if requested = str ''popular'' then
                (if actual = str ''famous'' then 1.0
                 else if actual = str ''established'' then 0.8
                 else if actual = str ''rising'' then 0.4
                 else 0.1)
              else if requested = str ''hidden'' then
                (if actual = str ''hidden'' then 1.0
                 else if actual = str ''rising'' then 0.7
                 else 0.2)
              else 0.5))"

text \<open>
  The score as a formula over the real numbers: the loop of \<^verbatim>\<open>calculateSkillMatch\<close> with
  the state \<open>(totalWeight, matchedWeight)\<close> (\<open>names\<close> is the list behind the set of
  lower-cased skill names of the expert), and the weighted sum, with exact sums, products
  and quotients.
\<close>

fun skill_loop ::
  "env \<Rightarrow> jstring list \<Rightarrow> req_skill list \<Rightarrow> real \<times> real \<Rightarrow> real \<times> real" where
  "skill_loop E names [] acc = acc"
| "skill_loop E names (req # reqs) (totalWeight, matchedWeight) =
     skill_loop E names reqs
       (totalWeight + weight req,
        if toLowerCase E (rs_name req) \<in> set names then matchedWeight + weight req
        else matchedWeight)"

definition calculateSkillMatch :: "env \<Rightarrow> expert \<Rightarrow> requirements option \<Rightarrow> real" where
  "calculateSkillMatch E e reqs =
     (case reqs of
        None \<Rightarrow> 0.5
      | Some r \<Rightarrow>
          if length (skills r) = 0 then 0.5
          else
            (let expertSkills = map (\<lambda>s. toLowerCase E (sk_name s)) (e_skills e);
                 (totalWeight, matchedWeight) = skill_loop E expertSkills (skills r) (0, 0)
             in if totalWeight > 0 then matchedWeight / totalWeight else 0.5))"

text \<open>\<^verbatim>\<open>expert.availability?.status === 'available' ? 0.1 : 0\<close>\<close>

definition availabilityBonus :: "expert \<Rightarrow> real" where
  "availabilityBonus e =
     (case e_availability e of
        None \<Rightarrow> 0
      | Some a \<Rightarrow> if status a = str ''available'' then 0.1 else 0)"

definition matchScoreOf :: "env \<Rightarrow> expert \<Rightarrow> requirements option \<Rightarrow> real" where
  "matchScoreOf E e reqs =
     min 1 (calculateSkillMatch E e reqs * 0.7 + calculateRenownMatch E e reqs * 0.3
            + availabilityBonus e)"

text \<open>
  The score as the runtime computes it: the same loop and the same weighted sum, each
  decimal read as the double it denotes and each sum, product and quotient taken by the
  arithmetic of the runtime. This is the value \<^verbatim>\<open>RecommenderAgent.execute\<close> stores in
  \<^verbatim>\<open>matchScore\<close> and sorts by.
\<close>

fun skill_loop_rt ::
  "env \<Rightarrow> jstring list \<Rightarrow> req_skill list \<Rightarrow> number \<times> number \<Rightarrow> number \<times> number" where
  "skill_loop_rt E names [] acc = acc"
| "skill_loop_rt E names (req # reqs) (totalWeight, matchedWeight) =
     skill_loop_rt E names reqs
       (num_add E totalWeight (num_lit E (weight req)),
        if toLowerCase E (rs_name req) \<in> set names
        then num_add E matchedWeight (num_lit E (weight req))
        else matchedWeight)"

definition calculateSkillMatch_rt :: "env \<Rightarrow> expert \<Rightarrow> requirements option \<Rightarrow> number" where
  "calculateSkillMatch_rt E e reqs =
     (case reqs of
        None \<Rightarrow> num_lit E 0.5
      | Some r \<Rightarrow>
          if length (skills r) = 0 then num_lit E 0.5
          else
            (let expertSkills = map (\<lambda>s. toLowerCase E (sk_name s)) (e_skills e);
                 (totalWeight, matchedWeight) =
                   skill_loop_rt E expertSkills (skills r) (Fin 0, Fin 0)
             in if num_pos totalWeight then num_div E matchedWeight totalWeight
                else num_lit E 0.5))"

definition computedScore :: "env \<Rightarrow> expert \<Rightarrow> requirements option \<Rightarrow> number" where
  "computedScore E e reqs =
     num_min1
       (num_add E
          (num_add E (num_mul E (calculateSkillMatch_rt E e reqs) (num_lit E 0.7))
                     (num_mul E (num_lit E (calculateRenownMatch E e reqs)) (num_lit E 0.3)))
          (num_lit E (availabilityBonus e)))"

text \<open>
  An arithmetic without rounding: a decimal is read as itself, and the sum, the product
  and the quotient (by a number that is not zero) of two finite numbers are the exact
  ones. Under it the score of the runtime is the formula over the real numbers.
\<close>

definition exact_arith :: "env \<Rightarrow> bool" where
  "exact_arith E =
     (num_lit E = Fin \<and>
      (\<forall>a b. num_add E (Fin a) (Fin b) = Fin (a + b)) \<and>
      (\<forall>a b. num_mul E (Fin a) (Fin b) = Fin (a * b)) \<and>
      (\<forall>a b. b \<noteq> 0 \<longrightarrow> num_div E (Fin a) (Fin b) = Fin (a / b)))"

section \<open>The completion provider (\<^verbatim>\<open>fireworks.ts\<close>)\<close>

definition DEFAULT_MODEL :: jstring where
  "DEFAULT_MODEL = (str ''accounts/fireworks/models/llama-v3p3-70b-instruct'')"

definition chat :: "env \<Rightarrow> chat_message list \<Rightarrow> chat_options \<Rightarrow> error + jstring" where
  "chat E messages options =
     (if \<not> truthy (fireworks_api_key E) then Inl (Error (str ''FIREWORKS_API_KEY not set''))
      else
        sbind (fireworks_fetch E
                 \<lparr>rq_key = the (fireworks_api_key E),
                  rq_model = (case o_model options of None \<Rightarrow> DEFAULT_MODEL | Some m \<Rightarrow> m),
                  rq_messages = messages,
                  rq_temperature = (case o_temperature options of None \<Rightarrow> 0.7 | Some t \<Rightarrow> t),
                  rq_max_tokens = (case o_maxTokens options of None \<Rightarrow> 2048 | Some n \<Rightarrow> n),
                  rq_json_object = (case o_jsonMode options of None \<Rightarrow> False | Some b \<Rightarrow> b)\<rparr>)
          (\<lambda>response.
             if \<not> fw_ok response then Inl (Error ((str ''Fireworks API error: '') @ fw_text response))
             else sbind (fw_json response)
                    (\<lambda>choices. Inr (case choices of [] \<Rightarrow> [] | c # _ \<Rightarrow> c))))"

text \<open>
  The system prompts are cut to their first sentence: a prompt is only passed on to the
  endpoint, and the endpoint is a parameter.
\<close>

definition parseQuery_systemPrompt :: jstring where
  "parseQuery_systemPrompt = (str ''You are a query parser for an expert matching system.'')"

definition stop_words :: "jstring list" where
  "stop_words = [(str ''find''), (str ''need''), (str ''want''), (str ''looking''), (str ''expert''), (str ''developer''),
                 (str ''professional''), (str ''professionals'')]"

text \<open>\<^verbatim>\<open>name.charAt(0).toUpperCase() + name.slice(1)\<close>\<close>

definition capitalize :: "env \<Rightarrow> jstring \<Rightarrow> jstring" where
  "capitalize E name' = toUpperCase E (take 1 name') @ drop 1 name'"

definition heuristicSkills :: "env \<Rightarrow> jstring \<Rightarrow> req_skill list" where
  "heuristicSkills E rawQuery' =
     map (\<lambda>name'. \<lparr>rs_name = capitalize E name', weight = 0.8\<rparr>)
       (take 3
          (filter (\<lambda>w. w \<notin> set stop_words)
             (filter (\<lambda>w. length w > 3) (split_ws (toLowerCase E rawQuery')))))"

definition defaultResult :: "env \<Rightarrow> jstring \<Rightarrow> requirements" where
  "defaultResult E rawQuery' =
     \<lparr>skills = heuristicSkills E rawQuery', constraints = [], intent = (str ''technical_hire''),
      summary = rawQuery'\<rparr>"

text \<open>The completion call of \<^verbatim>\<open>parseQuery\<close>.\<close>

definition parseQuery_chat :: "env \<Rightarrow> jstring \<Rightarrow> error + jstring" where
  "parseQuery_chat E rawQuery' =
     chat E [\<lparr>role = (str ''system''), content = parseQuery_systemPrompt\<rparr>,
             \<lparr>role = (str ''user''), content = rawQuery'\<rparr>]
       \<lparr>o_model = None, o_temperature = Some 0.3, o_maxTokens = None, o_jsonMode = Some True\<rparr>"

definition parseQuery :: "env \<Rightarrow> jstring \<Rightarrow> error + requirements" where
  "parseQuery E rawQuery' =
     scatch
       (sbind (parseQuery_chat E rawQuery')
          (\<lambda>response.
             sbind (json_parse E response)
               (\<lambda>parsed.
                  Inr \<lparr>skills = (case pj_skills parsed of
                                   IsArray xs \<Rightarrow> xs
                                 | NotArray \<Rightarrow> skills (defaultResult E rawQuery')),
                       constraints = (case pj_constraints parsed of
                                        IsArray cs \<Rightarrow> cs
                                      | NotArray \<Rightarrow> []),
                       intent = (if truthy (pj_intent parsed) then the (pj_intent parsed)
                                 else (str ''technical_hire'')),
                       summary = (if truthy (pj_summary parsed) then the (pj_summary parsed)
                                  else rawQuery')\<rparr>)))
       (\<lambda>error. Inr (defaultResult E rawQuery'))"

text \<open>
  The fallback as the specification words it: the raw query lower-cased and split on
  white space, stop-words and tokens of length at most 3 removed, at most three tokens
  kept, each capitalized and given the weight 0.8.
\<close>

definition heuristic_spec :: "env \<Rightarrow> jstring \<Rightarrow> req_skill list" where
  "heuristic_spec E rawQuery' =
     map (\<lambda>t. \<lparr>rs_name = capitalize E t, weight = 0.8\<rparr>)
       (take 3
          (filter (\<lambda>t. \<not> (t \<in> set stop_words \<or> length t \<le> 3))
             (split_ws (toLowerCase E rawQuery'))))"

section \<open>The store and the program monad\<close>

text \<open>
  The world an invocation runs in: the collections, the number of store operations
  issued so far, the number of \<^verbatim>\<open>Math.random\<close> draws so far, and the clock in
  milliseconds. Every \<^verbatim>\<open>new Date()\<close> and \<^verbatim>\<open>Date.now()\<close> reads \<open>clock\<close>; the clock does not
  advance inside one invocation.
\<close>

record world =
  db :: database
  ops :: nat
  draws :: nat
  clock :: nat

text \<open>
  An asynchronous function is a state transformer whose result is a value or an
  exception. What was written to the store before an exception stays written.
\<close>

type_synonym 'a prog = "world \<Rightarrow> (error + 'a) \<times> world"

definition ret :: "'a \<Rightarrow> 'a prog" where
  "ret a w = (Inr a, w)"

definition throw :: "error \<Rightarrow> 'a prog" where
  "throw e w = (Inl e, w)"

definition lift :: "error + 'a \<Rightarrow> 'a prog" where
  "lift r w = (r, w)"

definition bnd :: "'a prog \<Rightarrow> ('a \<Rightarrow> 'b prog) \<Rightarrow> 'b prog" where
  "bnd m f w = (case m w of (Inl e, w') \<Rightarrow> (Inl e, w') | (Inr a, w') \<Rightarrow> f a w')"

definition try_catch :: "'a prog \<Rightarrow> (error \<Rightarrow> 'a prog) \<Rightarrow> 'a prog" where
  "try_catch m h w = (case m w of (Inl e, w') \<Rightarrow> h e w' | (Inr a, w') \<Rightarrow> (Inr a, w'))"

definition now :: "nat prog" where
  "now w = (Inr (clock w), w)"

text \<open>
  One awaited operation on the store. The environment decides whether the \<open>n\<close>-th
  operation rejects; an operation that rejects changes nothing.
\<close>

definition store_op :: "env \<Rightarrow> (database \<Rightarrow> 'a \<times> database) \<Rightarrow> 'a prog" where
  "store_op E f w =
     (case store_fault E (ops w) of
        Some e \<Rightarrow> (Inl e, w\<lparr>ops := Suc (ops w)\<rparr>)
      | None \<Rightarrow> (case f (db w) of (a, d) \<Rightarrow> (Inr a, w\<lparr>db := d, ops := Suc (ops w)\<rparr>)))"

text \<open>A read of the store whose evaluation can itself raise (an aggregation).\<close>

definition store_try :: "env \<Rightarrow> (database \<Rightarrow> error + 'a) \<Rightarrow> 'a prog" where
  "store_try E f w =
     (case store_fault E (ops w) of
        Some e \<Rightarrow> (Inl e, w\<lparr>ops := Suc (ops w)\<rparr>)
      | None \<Rightarrow> (f (db w), w\<lparr>ops := Suc (ops w)\<rparr>))"

text \<open>\<^verbatim>\<open>await getDb()\<close>\<close>

definition getDb :: "env \<Rightarrow> unit prog" where
  "getDb E = store_op E (\<lambda>d. ((), d))"

text \<open>\<^verbatim>\<open>updateOne(filter, {$set: ...})\<close>: the first document that matches is updated.\<close>

fun update_first :: "('a \<Rightarrow> bool) \<Rightarrow> ('a \<Rightarrow> 'a) \<Rightarrow> 'a list \<Rightarrow> 'a list" where
  "update_first p f [] = []"
| "update_first p f (x # xs) = (if p x then f x # xs else x # update_first p f xs)"

text \<open>
  \<^verbatim>\<open>updateOne(filter, {$set: doc}, {upsert: true})\<close> where \<^verbatim>\<open>$set\<close> names every field of the
  document: the first match is replaced, and without a match the document is inserted.
\<close>

definition upsert :: "('a \<Rightarrow> bool) \<Rightarrow> 'a \<Rightarrow> 'a list \<Rightarrow> 'a list" where
  "upsert p new xs =
     (case find p xs of
        None \<Rightarrow> xs @ [new]
      | Some _ \<Rightarrow> update_first p (\<lambda>_. new) xs)"

section \<open>The embedding provider (\<^verbatim>\<open>voyage.ts\<close>)\<close>

text \<open>\<^verbatim>\<open>Array(1024).fill(0).map(() => Math.random() * 2 - 1)\<close>\<close>

definition mock_vector :: "env \<Rightarrow> world \<Rightarrow> real list" where
  "mock_vector E w = map (\<lambda>i. random E (draws w + i) * 2 - 1) [0..<1024]"

definition mockEmbedding :: "env \<Rightarrow> real list prog" where
  "mockEmbedding E w = (Inr (mock_vector E w), w\<lparr>draws := draws w + 1024\<rparr>)"

text \<open>The body of the \<^verbatim>\<open>try\<close> block of \<^verbatim>\<open>generateEmbedding\<close>.\<close>

definition cachedEmbedding :: "env \<Rightarrow> jstring \<Rightarrow> jstring \<Rightarrow> real list prog" where
  "cachedEmbedding E voyageKey text' =
     (let hash = sha256 E text' in
      bnd (getDb E) (\<lambda>_.
      bnd (store_op E (\<lambda>d. (find (\<lambda>c. textHash c = hash) (cache_embeddings d), d))) (\<lambda>cached.
        case cached of
          Some c \<Rightarrow> ret (embedding c)
        | None \<Rightarrow>
            bnd (lift (voyage_fetch E voyageKey text')) (\<lambda>response.
              if \<not> v_ok response
              then throw (Error ((str ''Voyage API error: '') @ v_statusText response))
              else
                bnd (lift (v_json response)) (\<lambda>data.
                bnd (case data of
                       [] \<Rightarrow> throw (TypeError (str ''Cannot read properties of undefined''))
                     | first # _ \<Rightarrow> ret first) (\<lambda>embedding'.
                bnd now (\<lambda>t.
                bnd (store_op E (\<lambda>d.
                       ((), d\<lparr>cache_embeddings :=
                                upsert (\<lambda>c. textHash c = hash)
                                  \<lparr>textHash = hash, text_preview = take 500 text',
                                   embedding = embedding', c_createdAt = t\<rparr>
                                  (cache_embeddings d)\<rparr>))) (\<lambda>_.
                ret embedding'))))))))"

definition generateEmbedding :: "env \<Rightarrow> jstring \<Rightarrow> real list prog" where
  "generateEmbedding E text' =
     (if \<not> truthy (voyage_api_key E) then mockEmbedding E
      else try_catch (cachedEmbedding E (the (voyage_api_key E)) text')
             (\<lambda>error. mockEmbedding E))"

text \<open>
  A vector comes from the provider when it is the first embedding of a successful
  response of the embedding endpoint. The invariant of the embedding cache: every entry
  holds such a vector.
\<close>

definition from_provider :: "env \<Rightarrow> real list \<Rightarrow> bool" where
  "from_provider E v =
     (\<exists>key tx resp rest.
        voyage_fetch E key tx = Inr resp \<and> v_ok resp \<and> v_json resp = Inr (v # rest))"

definition cache_from_provider :: "env \<Rightarrow> database \<Rightarrow> bool" where
  "cache_from_provider E d = list_all (\<lambda>c. from_provider E (embedding c)) (cache_embeddings d)"

definition generateQueryEmbedding :: "env \<Rightarrow> jstring \<Rightarrow> real list prog" where
  "generateQueryEmbedding E query = generateEmbedding E query"

section \<open>The agents (\<^verbatim>\<open>agents.ts\<close>)\<close>

text \<open>\<^verbatim>\<open>BaseAgent.log\<close>; the name \<open>log\<close> is the logarithm in HOL.\<close>

definition agent_log ::
  "env \<Rightarrow> agent_type \<Rightarrow> jstring \<Rightarrow> jstring \<Rightarrow> requirements option \<Rightarrow> unit prog" where
  "agent_log E agentType qid msg dat =
     bnd (getDb E) (\<lambda>_.
     bnd now (\<lambda>t.
     store_op E (\<lambda>d.
       ((), d\<lparr>queries :=
                update_first (\<lambda>q. queryId q = qid)
                  (\<lambda>q. q\<lparr>agentConversation :=
                            agentConversation q @
                              [\<lparr>m_agent = agentType, m_message = msg, m_data = dat,
                                m_timestamp = t\<rparr>]\<rparr>)
                  (queries d)\<rparr>))))"

definition QueryAnalystAgent_execute :: "env \<Rightarrow> jstring \<Rightarrow> jstring \<Rightarrow> requirements prog" where
  "QueryAnalystAgent_execute E qid rawQuery' =
     bnd (agent_log E Analyst qid (str ''Analyzing query requirements...'') None) (\<lambda>_.
     bnd (lift (parseQuery E rawQuery')) (\<lambda>requirements.
     bnd (agent_log E Analyst qid
            ((str ''Extracted '') @ show_nat (length (skills requirements)) @ (str '' skills, '') @
             show_nat (length (constraints requirements)) @ (str '' constraints''))
            (Some requirements)) (\<lambda>_.
     ret requirements)))"

text \<open>The \<^verbatim>\<open>$match\<close> stage that a renown constraint adds to the pipeline.\<close>

definition renownFilter :: "jstring \<Rightarrow> (expert \<Rightarrow> bool) option" where
  "renownFilter renownValue =
     (if renownValue = (str ''popular'')
      then Some (\<lambda>e. renownLevel e = Some (str ''famous'') \<or> renownLevel e = Some (str ''established''))
      else if renownValue = (str ''hidden'')
      then Some (\<lambda>e. renownLevel e = Some (str ''hidden'') \<or> renownLevel e = Some (str ''rising''))
      else None)"

text \<open>
  The aggregation over the experts collection: \<^verbatim>\<open>$vectorSearch\<close> with \<^verbatim>\<open>limit: 20\<close>,
  \<^verbatim>\<open>$addFields\<close>, the optional \<^verbatim>\<open>$match\<close>, and \<^verbatim>\<open>.limit(10)\<close>.
\<close>

definition aggregate ::
  "env \<Rightarrow> (expert \<Rightarrow> bool) option \<Rightarrow> real list \<Rightarrow> expert list \<Rightarrow> error + expert list" where
  "aggregate E match_stage queryEmbedding xs =
     sbind (vector_search E queryEmbedding xs) (\<lambda>hits.
       Inr (take 10
              (filter (case match_stage of None \<Rightarrow> (\<lambda>_. True) | Some flt \<Rightarrow> flt)
                 (map (\<lambda>(e, s). e\<lparr>vectorSearchScore := Some s\<rparr>) (take 20 hits)))))"

text \<open>
  The renown constraint of the \<^verbatim>\<open>try\<close> block: the \<^verbatim>\<open>$match\<close> stage it pushes, if any,
  after logging it.
\<close>

definition chooseMatchStage ::
  "env \<Rightarrow> jstring \<Rightarrow> requirements option \<Rightarrow> (expert \<Rightarrow> bool) option prog" where
  "chooseMatchStage E qid reqs =
     (case renownConstraint reqs of
        None \<Rightarrow> ret None
      | Some rc \<Rightarrow>
          (let renownValue = toLowerCase E (c_value rc) in
           case renownFilter renownValue of
             None \<Rightarrow> ret None
           | Some flt \<Rightarrow>
               bnd (agent_log E Scout qid ((str ''Applying renown filter: '') @ renownValue) None)
                 (\<lambda>_. ret (Some flt))))"

text \<open>
  The \<^verbatim>\<open>try\<close> block of \<^verbatim>\<open>ProfileScoutAgent.execute\<close>. \<open>Some res\<close> is its
  \<^verbatim>\<open>return results\<close>; \<open>None\<close> is falling through to the text search.
\<close>

definition vectorSearch ::
  "env \<Rightarrow> jstring \<Rightarrow> requirements option \<Rightarrow> real list \<Rightarrow> expert list option prog" where
  "vectorSearch E qid reqs queryEmbedding =
     bnd (chooseMatchStage E qid reqs) (\<lambda>match_stage.
     bnd (store_try E (\<lambda>d. aggregate E match_stage queryEmbedding (experts d))) (\<lambda>res.
     if length res > 0
     then bnd (agent_log E Scout qid
                 ((str ''Found '') @ show_nat (length res) @ (str '' candidates via vector search'')) None)
            (\<lambda>_. ret (Some res))
     else ret None))"

text \<open>The \<^verbatim>\<open>$match\<close> stage that \<open>vectorSearch\<close> chooses for a requirement set.\<close>

definition scoutMatchStage :: "env \<Rightarrow> requirements option \<Rightarrow> (expert \<Rightarrow> bool) option" where
  "scoutMatchStage E reqs =
     (case renownConstraint reqs of
        None \<Rightarrow> None
      | Some rc \<Rightarrow> renownFilter (toLowerCase E (c_value rc)))"

text \<open>\<^verbatim>\<open>skillNames.map(s => new RegExp(s, 'i'))\<close>: the first invalid pattern throws.\<close>

fun compile_all :: "env \<Rightarrow> jstring list \<Rightarrow> error + (jstring \<Rightarrow> bool) list" where
  "compile_all E [] = Inr []"
| "compile_all E (s # ss) =
     sbind (regexp_i E s) (\<lambda>r. sbind (compile_all E ss) (\<lambda>rs. Inr (r # rs)))"

text \<open>
  The query \<^verbatim>\<open>{'skills.name': {$in: regexes}}\<close>: some skill name of the document matches
  some of the expressions.
\<close>

definition skills_name_in :: "(jstring \<Rightarrow> bool) list \<Rightarrow> expert \<Rightarrow> bool" where
  "skills_name_in regexes e =
     list_ex (\<lambda>sk. list_ex (\<lambda>rx. rx (sk_name sk)) regexes) (e_skills e)"

text \<open>The query document of the fallback.\<close>

definition textQuery :: "env \<Rightarrow> requirements option \<Rightarrow> error + (expert \<Rightarrow> bool)" where
  "textQuery E reqs =
     (let skillNames = (case reqs of None \<Rightarrow> [] | Some r \<Rightarrow> map rs_name (skills r)) in
      if length skillNames > 0
      then sbind (compile_all E skillNames) (\<lambda>regexes. Inr (skills_name_in regexes))
      else Inr (\<lambda>_. True))"

text \<open>The fallback of \<^verbatim>\<open>ProfileScoutAgent.execute\<close>, after the \<^verbatim>\<open>try\<close> block.\<close>

definition textSearch :: "env \<Rightarrow> jstring \<Rightarrow> requirements option \<Rightarrow> expert list prog" where
  "textSearch E qid reqs =
     bnd (lift (textQuery E reqs)) (\<lambda>query.
     bnd (store_op E (\<lambda>d. (take 10 (filter query (experts d)), d))) (\<lambda>found.
     bnd (agent_log E Scout qid
            ((str ''Found '') @ show_nat (length found) @ (str '' candidates via text search'')) None) (\<lambda>_.
     ret found)))"

text \<open>
  The start of \<^verbatim>\<open>ProfileScoutAgent.execute\<close>, up to the query vector of the run: the first
  log entry, \<^verbatim>\<open>getDb\<close> and the embedding of the raw query.
\<close>

definition scoutQueryVector :: "env \<Rightarrow> jstring \<Rightarrow> jstring \<Rightarrow> real list prog" where
  "scoutQueryVector E qid rawQuery' =
     bnd (agent_log E Scout qid (str ''Searching expert database...'') None) (\<lambda>_.
     bnd (getDb E) (\<lambda>_.
     generateQueryEmbedding E rawQuery'))"

definition ProfileScoutAgent_execute ::
  "env \<Rightarrow> jstring \<Rightarrow> requirements option \<Rightarrow> jstring \<Rightarrow> expert list prog" where
  "ProfileScoutAgent_execute E qid reqs rawQuery' =
     bnd (scoutQueryVector E qid rawQuery') (\<lambda>queryEmbedding.
     bnd (try_catch (vectorSearch E qid reqs queryEmbedding) (\<lambda>error. ret None)) (\<lambda>found.
       case found of
         Some res \<Rightarrow> ret res
       | None \<Rightarrow> textSearch E qid reqs))"

text \<open>\<^verbatim>\<open>expert.availability?.status === 'available'\<close>\<close>

definition is_available :: "expert \<Rightarrow> bool" where
  "is_available e = (case e_availability e of None \<Rightarrow> False | Some a \<Rightarrow> status a = (str ''available''))"

definition verify_one :: "expert \<Rightarrow> expert" where
  "verify_one e =
     e\<lparr>verified := Some True,
       verificationDetails :=
         Some \<lparr>profileComplete = (bio e \<noteq> [] \<and> length (e_skills e) > 0),
               hasExternalLinks = (truthy (linkedIn e) \<or> truthy (github e)),
               availabilityConfirmed = is_available e\<rparr>\<rparr>"

definition VerifierAgent_execute :: "env \<Rightarrow> jstring \<Rightarrow> expert list \<Rightarrow> expert list prog" where
  "VerifierAgent_execute E qid candidates =
     bnd (agent_log E Verifier qid
            ((str ''Verifying '') @ show_nat (length candidates) @ (str '' candidates...'')) None) (\<lambda>_.
     (let verified' = map verify_one candidates;
          availableCount = length (filter is_available verified')
      in bnd (agent_log E Verifier qid
                ((str ''Verified '') @ show_nat (length verified') @ (str '' experts, '') @
                 show_nat availableCount @ (str '' available'')) None) (\<lambda>_.
         ret verified')))"

definition explanation_systemPrompt :: jstring where
  "explanation_systemPrompt = (str ''You are explaining why an expert matches a query.'')"

definition generateExplanation ::
  "env \<Rightarrow> jstring \<Rightarrow> expert \<Rightarrow> number \<Rightarrow> error + jstring list" where
  "generateExplanation E query e score =
     sbind (chat E
              [\<lparr>role = (str ''system''), content = explanation_systemPrompt\<rparr>,
               \<lparr>role = (str ''user''),
                content = (str ''Query: '') @ [0x22] @ query @ [0x22, 0x0A, 0x0A] @
                          (str ''Expert: '') @ e_name e @ (str '', '') @ title e @ [0x0A] @
                          (str ''Skills: '') @ join (str '', '') (map sk_name (e_skills e)) @ [0x0A] @
                          (str ''Match Score: '') @ toFixed0 E (num_mul E score (Fin 100)) @ (str ''%'')\<rparr>]
              \<lparr>o_model = None, o_temperature = Some 0.7, o_maxTokens = None, o_jsonMode = None\<rparr>)
       (\<lambda>response. Inr (filter (\<lambda>line. length (trim line) > 0) (split_lines response)))"

text \<open>The \<^verbatim>\<open>for\<close> loop of \<^verbatim>\<open>RecommenderAgent.execute\<close>; \<open>acc\<close> is \<^verbatim>\<open>matches\<close>.\<close>

fun rank_loop ::
  "env \<Rightarrow> jstring \<Rightarrow> requirements option \<Rightarrow> expert list \<Rightarrow> expert_match list
     \<Rightarrow> error + expert_match list" where
  "rank_loop E rawQuery' reqs [] acc = Inr acc"
| "rank_loop E rawQuery' reqs (e # rest) acc =
     sbind (generateExplanation E rawQuery' e (computedScore E e reqs)) (\<lambda>reasoning'.
       rank_loop E rawQuery' reqs rest
         (acc @ [\<lparr>em_expert = e, matchScore = computedScore E e reqs, reasoning = reasoning',
                   matchedBy = Recommender\<rparr>]))"

text \<open>
  \<^verbatim>\<open>matches.sort((a, b) => b.matchScore - a.matchScore)\<close>. The difference of two doubles
  that are not NaN is negative, zero or positive as their order says, or NaN when both
  are the same infinity; it is NaN when one of them is NaN; and the sort reads a NaN from
  the comparator as zero. When no score is NaN the comparator is therefore consistent,
  with two scores tied exactly when they are equal, and ECMAScript fixes the result: the
  stable sort by descending score. When a score is NaN the comparator is not consistent;
  the result is then still an arrangement of the same elements, but its order is
  implementation-defined, a parameter (a value of the parameter that is not an
  arrangement of the same elements is not used).
\<close>

definition sort_matches :: "env \<Rightarrow> expert_match list \<Rightarrow> expert_match list" where
  "sort_matches E ms =
     (if list_ex (\<lambda>m. matchScore m = NaN) ms then
        (if mset (unspecified_sort E ms) = mset ms then unspecified_sort E ms else ms)
      else sort_key (\<lambda>m. desc_key (matchScore m)) ms)"

definition RecommenderAgent_execute ::
  "env \<Rightarrow> jstring \<Rightarrow> expert list \<Rightarrow> jstring \<Rightarrow> requirements option \<Rightarrow> expert_match list prog" where
  "RecommenderAgent_execute E qid candidates rawQuery' reqs =
     bnd (agent_log E Recommender qid (str ''Ranking and explaining matches...'') None) (\<lambda>_.
     bnd (lift (rank_loop E rawQuery' reqs (take 5 candidates) [])) (\<lambda>unsorted.
     (let sorted' = sort_matches E unsorted in
      bnd (agent_log E Recommender qid
             ((str ''Ranked '') @ show_nat (length sorted') @ (str '' experts, top match: '') @
              (case sorted' of
                 [] \<Rightarrow> (str ''none'')
               | m # _ \<Rightarrow> if e_name (em_expert m) = [] then (str ''none'') else e_name (em_expert m)))
             None) (\<lambda>_.
      ret sorted'))))"

section \<open>The orchestrator\<close>

text \<open>The identifiers the constructor of \<^verbatim>\<open>OrchestratorAgent\<close> draws.\<close>

record orchestrator =
  o_queryId :: jstring
  o_taskId :: jstring

text \<open>\<^verbatim>\<open>sha256(rawQuery.trim().toLowerCase())\<close>\<close>

definition computeQueryHash :: "env \<Rightarrow> jstring \<Rightarrow> jstring" where
  "computeQueryHash E rawQuery' = sha256 E (toLowerCase E (trim rawQuery'))"

definition cacheHitMessage :: "nat \<Rightarrow> agent_message" where
  "cacheHitMessage t =
     \<lparr>m_agent = Orchestrator,
      m_message = (str ''Retrieved optimized results from lightning cache.''),
      m_data = None, m_timestamp = t\<rparr>"

text \<open>The two \<^verbatim>\<open>insertOne\<close> calls that create the query record and the task record.\<close>

definition newQueryRecord :: "orchestrator \<Rightarrow> jstring \<Rightarrow> nat \<Rightarrow> query_record" where
  "newQueryRecord orch rawQuery' t =
     \<lparr>queryId = o_queryId orch, rawQuery = rawQuery', parsedRequirements = None,
      agentConversation = [], results = [], q_status = Processing, q_createdAt = t,
      q_completedAt = None\<rparr>"

definition newTaskRecord :: "orchestrator \<Rightarrow> nat \<Rightarrow> task_record" where
  "newTaskRecord orch t =
     \<lparr>taskId = o_taskId orch, t_queryId = o_queryId orch,
      agents = [Orchestrator, Analyst, Scout, Verifier, Recommender],
      t_status = In_progress, steps = [], startedAt = t, t_completedAt = None\<rparr>"

definition createRecords :: "env \<Rightarrow> orchestrator \<Rightarrow> jstring \<Rightarrow> unit prog" where
  "createRecords E orch rawQuery' =
     bnd now (\<lambda>t.
     bnd (store_op E (\<lambda>d. ((), d\<lparr>queries := queries d @ [newQueryRecord orch rawQuery' t]\<rparr>))) (\<lambda>_.
     bnd now (\<lambda>t'.
     store_op E (\<lambda>d. ((), d\<lparr>agent_tasks := agent_tasks d @ [newTaskRecord orch t']\<rparr>)))))"

text \<open>Steps 1 to 4: the four stages in sequence.\<close>

definition runStages ::
  "env \<Rightarrow> orchestrator \<Rightarrow> jstring \<Rightarrow> (requirements \<times> expert_match list) prog" where
  "runStages E orch rawQuery' =
     bnd (QueryAnalystAgent_execute E (o_queryId orch) rawQuery') (\<lambda>requirements.
     bnd (ProfileScoutAgent_execute E (o_queryId orch) (Some requirements) rawQuery') (\<lambda>candidates.
     bnd (VerifierAgent_execute E (o_queryId orch) candidates) (\<lambda>verified'.
     bnd (RecommenderAgent_execute E (o_queryId orch) verified' rawQuery' (Some requirements))
       (\<lambda>ranked. ret (requirements, ranked)))))"

text \<open>\<^verbatim>\<open>m.expert._id ? String(m.expert._id) : ''\<close>\<close>

definition matchId :: "expert_match \<Rightarrow> jstring" where
  "matchId m = (if truthy (e_id (em_expert m)) then the (e_id (em_expert m)) else [])"

text \<open>\<^verbatim>\<open>safeMatches\<close>: the identifier of each expert as a string, or undefined.\<close>

definition safeMatch :: "expert_match \<Rightarrow> expert_match" where
  "safeMatch m =
     m\<lparr>em_expert := (em_expert m)\<lparr>e_id := (if truthy (e_id (em_expert m))
                                            then e_id (em_expert m) else None)\<rparr>\<rparr>"

text \<open>
  After the stages: both records are marked completed, the conversation is read back and
  the final result is assembled.
\<close>

definition completeRun ::
  "env \<Rightarrow> orchestrator \<Rightarrow> requirements \<Rightarrow> expert_match list \<Rightarrow> final_result prog" where
  "completeRun E orch requirements ranked =
     bnd now (\<lambda>t.
     bnd (store_op E (\<lambda>d.
            ((), d\<lparr>queries :=
                     update_first (\<lambda>q. queryId q = o_queryId orch)
                       (\<lambda>q. q\<lparr>q_status := Completed, parsedRequirements := Some requirements,
                               results := map matchId ranked, q_completedAt := Some t\<rparr>)
                       (queries d)\<rparr>))) (\<lambda>_.
     bnd now (\<lambda>t'.
     bnd (store_op E (\<lambda>d.
            ((), d\<lparr>agent_tasks :=
                     update_first (\<lambda>k. taskId k = o_taskId orch)
                       (\<lambda>k. k\<lparr>t_status := Task_completed, t_completedAt := Some t'\<rparr>)
                       (agent_tasks d)\<rparr>))) (\<lambda>_.
     bnd (store_op E (\<lambda>d. (find (\<lambda>q. queryId q = o_queryId orch) (queries d), d))) (\<lambda>query.
     ret \<lparr>fr_queryId = o_queryId orch,
          matches = map safeMatch ranked,
          conversation = (case query of None \<Rightarrow> [] | Some q \<Rightarrow> agentConversation q)\<rparr>)))))"

text \<open>Step 5: the upsert of the result cache entry, with one hour to live.\<close>

definition storeResult :: "env \<Rightarrow> jstring \<Rightarrow> jstring \<Rightarrow> final_result \<Rightarrow> unit prog" where
  "storeResult E hash rawQuery' finalResult =
     bnd now (\<lambda>t.
     store_op E (\<lambda>d.
       ((), d\<lparr>cache_search_results :=
                upsert (\<lambda>c. queryHash c = hash)
                  \<lparr>queryHash = hash, originalQuery = rawQuery', r_result = finalResult,
                   r_createdAt = t, expiresAt = t + 60 * 60 * 1000\<rparr>
                  (cache_search_results d)\<rparr>)))"

text \<open>The \<^verbatim>\<open>try\<close> block after a cache miss.\<close>

definition missPath :: "env \<Rightarrow> orchestrator \<Rightarrow> jstring \<Rightarrow> jstring \<Rightarrow> final_result prog" where
  "missPath E orch rawQuery' hash =
     bnd (createRecords E orch rawQuery') (\<lambda>_.
     bnd (runStages E orch rawQuery') (\<lambda>(requirements, ranked).
     bnd (completeRun E orch requirements ranked) (\<lambda>finalResult.
     bnd (storeResult E hash rawQuery' finalResult) (\<lambda>_.
     ret finalResult))))"

text \<open>The lookup of the result cache: the hash matches and the entry has not expired.\<close>

definition cacheLookup :: "env \<Rightarrow> jstring \<Rightarrow> result_entry option prog" where
  "cacheLookup E hash =
     bnd now (\<lambda>t.
     store_op E (\<lambda>d.
       (find (\<lambda>c. queryHash c = hash \<and> expiresAt c > t) (cache_search_results d), d)))"

text \<open>The \<^verbatim>\<open>catch\<close> block of \<^verbatim>\<open>processQuery\<close>.\<close>

definition markFailed :: "env \<Rightarrow> orchestrator \<Rightarrow> error \<Rightarrow> final_result prog" where
  "markFailed E orch err =
     bnd (store_op E (\<lambda>d.
            ((), d\<lparr>queries :=
                     update_first (\<lambda>q. queryId q = o_queryId orch) (\<lambda>q. q\<lparr>q_status := Failed\<rparr>)
                       (queries d)\<rparr>))) (\<lambda>_.
     throw err)"

definition processQuery :: "env \<Rightarrow> orchestrator \<Rightarrow> jstring \<Rightarrow> final_result prog" where
  "processQuery E orch rawQuery' =
     bnd (getDb E) (\<lambda>_.
     (let hash = computeQueryHash E rawQuery' in
      try_catch
        (bnd (cacheLookup E hash) (\<lambda>cachedResult.
           case cachedResult of
             Some c \<Rightarrow>
               bnd now (\<lambda>t.
               ret \<lparr>fr_queryId = fr_queryId (r_result c),
                    matches = matches (r_result c),
                    conversation = cacheHitMessage t # conversation (r_result c)\<rparr>)
           | None \<Rightarrow> missPath E orch rawQuery' hash))
        (markFailed E orch)))"

section \<open>Frame conditions\<close>

text \<open>
  What a stage leaves alone: the experts, the task records, the result cache and, of
  each query record in order, the identifier, the raw query and the status.
\<close>

definition query_key :: "query_record \<Rightarrow> jstring \<times> jstring \<times> query_status" where
  "query_key q = (queryId q, rawQuery q, q_status q)"

definition stage_frame :: "database \<Rightarrow> database \<Rightarrow> bool" where
  "stage_frame d d' =
     (experts d' = experts d \<and> agent_tasks d' = agent_tasks d \<and>
      cache_search_results d' = cache_search_results d \<and>
      map query_key (queries d') = map query_key (queries d))"

definition frames :: "'a prog \<Rightarrow> bool" where
  "frames m = (\<forall>w r w'. m w = (r, w') \<longrightarrow> stage_frame (db w) (db w') \<and> clock w' = clock w)"

text \<open>The store rejects no operation.\<close>

definition healthy :: "env \<Rightarrow> bool" where
  "healthy E = (\<forall>n. store_fault E n = None)"

text \<open>
  The world in which the stages start after a cache miss: \<^verbatim>\<open>getDb\<close> and the cache lookup
  have been issued and the query record and the task record have been inserted.
\<close>

definition pipeline_start :: "orchestrator \<Rightarrow> jstring \<Rightarrow> world \<Rightarrow> world" where
  "pipeline_start orch rawQuery' w =
     w\<lparr>db := (db w)\<lparr>queries := queries (db w) @ [newQueryRecord orch rawQuery' (clock w)],
                       agent_tasks := agent_tasks (db w) @ [newTaskRecord orch (clock w)]\<rparr>,
       ops := ops w + 4\<rparr>"

section \<open>Sample data\<close>

text \<open>Concrete values at which the theorems below are instantiated.\<close>

definition react_expert :: expert where
  "react_expert =
     \<lparr>e_id = Some (str ''e1''), e_name = (str ''Ada''), title = (str ''Frontend Lead''), bio = (str ''Builds UIs''),
      e_skills = [\<lparr>sk_name = (str ''React''), sk_level = (str ''senior''), yearsExp = 6\<rparr>,
                  \<lparr>sk_name = (str ''Leadership''), sk_level = (str ''mid''), yearsExp = 3\<rparr>],
      linkedIn = None, github = Some (str ''ada''),
      e_availability = Some \<lparr>timezone = (str ''UTC''), hoursPerWeek = 20, status = (str ''available'')\<rparr>,
      renownLevel = Some (str ''famous''), vectorSearchScore = None, verified = None,
      verificationDetails = None\<rparr>"

definition python_expert :: expert where
  "python_expert =
     \<lparr>e_id = Some (str ''e2''), e_name = (str ''Bob''), title = (str ''React Engineer''), bio = (str ''Loves React''),
      e_skills = [\<lparr>sk_name = (str ''Python''), sk_level = (str ''expert''), yearsExp = 9\<rparr>],
      linkedIn = None, github = None,
      e_availability = Some \<lparr>timezone = (str ''UTC''), hoursPerWeek = 10, status = (str ''busy'')\<rparr>,
      renownLevel = None, vectorSearchScore = None, verified = None,
      verificationDetails = None\<rparr>"

definition popular_constraint :: constraint where
  "popular_constraint = \<lparr>c_type = (str ''renown''), c_value = (str ''popular'')\<rparr>"

definition hidden_constraint :: constraint where
  "hidden_constraint = \<lparr>c_type = (str ''renown''), c_value = (str ''hidden'')\<rparr>"

definition react_requirements :: "constraint list \<Rightarrow> requirements" where
  "react_requirements cs =
     \<lparr>skills = [\<lparr>rs_name = (str ''react''), weight = 0.9\<rparr>, \<lparr>rs_name = (str ''Go''), weight = 0.5\<rparr>],
      constraints = cs, intent = (str ''technical_hire''), summary = (str ''React lead'')\<rparr>"

text \<open>
  A regular expression engine for patterns without metacharacters: for a pattern of
  letters, digits and spaces, \<^verbatim>\<open>new RegExp(p, 'i')\<close> searches for \<open>p\<close> anywhere in the
  subject, ignoring case. Any other pattern is refused here; the examples below use
  none.
\<close>

definition plain_char :: "code_unit \<Rightarrow> bool" where
  "plain_char c =
     (c \<in> set (str ''abcdefghijklmnopqrstuvwxyzABCDEFGHIJKLMNOPQRSTUVWXYZ0123456789 ''))"

definition contains_ci :: "jstring \<Rightarrow> jstring \<Rightarrow> bool" where
  "contains_ci p s =
     list_ex (\<lambda>i. take (length p) (drop i (map lower_unit s)) = map lower_unit p)
       [0..<Suc (length s)]"

definition literal_regexp :: "jstring \<Rightarrow> error + (jstring \<Rightarrow> bool)" where
  "literal_regexp p =
     (if list_all plain_char p then Inr (contains_ci p)
      else Inl (SyntaxError (str ''Invalid regular expression'')))"

text \<open>
  An arithmetic for the examples: a decimal is read as itself, a finite result below the
  overflow threshold of doubles is exact, a result beyond it is an infinity, and the
  infinities and NaN combine as in IEEE 754. The examples use it on values where the
  rounding of doubles does not change which of two results is larger.
\<close>

definition sample_round :: "real \<Rightarrow> number" where
  "sample_round x =
     (if x \<ge> 2 ^ 1024 then PosInf else if x \<le> - (2 ^ 1024) then NegInf else Fin x)"

fun sample_add :: "number \<Rightarrow> number \<Rightarrow> number" where
  "sample_add (Fin a) (Fin b) = sample_round (a + b)"
| "sample_add NaN y = NaN"
| "sample_add x NaN = NaN"
| "sample_add PosInf NegInf = NaN"
| "sample_add NegInf PosInf = NaN"
| "sample_add PosInf y = PosInf"
| "sample_add x PosInf = PosInf"
| "sample_add NegInf y = NegInf"
| "sample_add x NegInf = NegInf"

fun sample_mul :: "number \<Rightarrow> number \<Rightarrow> number" where
  "sample_mul (Fin a) (Fin b) = sample_round (a * b)"
| "sample_mul NaN y = NaN"
| "sample_mul x NaN = NaN"
| "sample_mul (Fin a) PosInf = (if a = 0 then NaN else if a > 0 then PosInf else NegInf)"
| "sample_mul (Fin a) NegInf = (if a = 0 then NaN else if a > 0 then NegInf else PosInf)"
| "sample_mul PosInf (Fin b) = (if b = 0 then NaN else if b > 0 then PosInf else NegInf)"
| "sample_mul NegInf (Fin b) = (if b = 0 then NaN else if b > 0 then NegInf else PosInf)"
| "sample_mul PosInf PosInf = PosInf"
| "sample_mul NegInf NegInf = PosInf"
| "sample_mul PosInf NegInf = NegInf"
| "sample_mul NegInf PosInf = NegInf"

fun sample_div :: "number \<Rightarrow> number \<Rightarrow> number" where
  "sample_div (Fin a) (Fin b) =
     (if b = 0 then (if a = 0 then NaN else if a > 0 then PosInf else NegInf)
      else sample_round (a / b))"
| "sample_div NaN y = NaN"
| "sample_div x NaN = NaN"
| "sample_div (Fin a) y = Fin 0"
| "sample_div PosInf (Fin b) = (if b \<ge> 0 then PosInf else NegInf)"
| "sample_div NegInf (Fin b) = (if b \<ge> 0 then NegInf else PosInf)"
| "sample_div x y = NaN"

text \<open>
  An environment with no provider credential and no vector index; the hash is a
  stand-in (the identity), \<^verbatim>\<open>Math.random\<close> always draws one half, the store has no
  fault, strings that are not ASCII are left as they are by case conversion, and an
  array with a NaN score is left by the sort in the order it had.
\<close>

definition offline_env :: env where
  "offline_env =
     \<lparr>fireworks_api_key = None,
      fireworks_fetch = (\<lambda>_. Inl (Error (str ''fetch failed''))),
      json_parse = (\<lambda>_. Inl (SyntaxError (str ''Unexpected end of JSON input''))),
      voyage_api_key = None,
      voyage_fetch = (\<lambda>_ _. Inl (Error (str ''fetch failed''))),
      sha256 = (\<lambda>s. s),
      random = (\<lambda>_. 1 / 2),
      regexp_i = literal_regexp,
      vector_search = (\<lambda>_ _. Inl (Error (str ''vector search is not available''))),
      toFixed0 = (\<lambda>x. case x of Fin v \<Rightarrow> show_nat (nat \<lfloor>v + 1 / 2\<rfloor>) | _ \<Rightarrow> str ''NaN''),
      store_fault = (\<lambda>_. None),
      unicode_toLowerCase = (\<lambda>s. s),
      unicode_toUpperCase = (\<lambda>s. s),
      num_lit = Fin,
      num_add = sample_add,
      num_mul = sample_mul,
      num_div = sample_div,
      unspecified_sort = (\<lambda>ms. ms)\<rparr>"

text \<open>
  An environment whose completion provider answers every request with a JSON object in
  which \<^verbatim>\<open>skills\<close> is a string, \<^verbatim>\<open>constraints\<close> is an array and \<^verbatim>\<open>summary\<close> is present.
\<close>

definition odd_shape_text :: jstring where
  \<open>odd_shape_text =
     (str ''{"skills": "kubernetes", "constraints": [{"type": "renown", "value": "popular"}], "summary": "Well-known Kubernetes people"}'')\<close>

definition odd_shape_json :: parsed_json where
  "odd_shape_json =
     \<lparr>pj_skills = NotArray, pj_constraints = IsArray [popular_constraint],
      pj_intent = None, pj_summary = Some (str ''Well-known Kubernetes people'')\<rparr>"

definition odd_shape_env :: env where
  "odd_shape_env =
     offline_env
       \<lparr>fireworks_api_key := Some (str ''fw-key''),
        fireworks_fetch :=
          (\<lambda>_. Inr \<lparr>fw_ok = True, fw_text = odd_shape_text, fw_json = Inr [odd_shape_text]\<rparr>),
        json_parse :=
          (\<lambda>s. if s = odd_shape_text then Inr odd_shape_json
               else Inl (SyntaxError (str ''Unexpected token'')))\<rparr>"


definition empty_db :: database where
  "empty_db =
     \<lparr>experts = [], queries = [], agent_tasks = [], cache_embeddings = [],
      cache_search_results = []\<rparr>"

definition empty_world :: world where
  "empty_world = \<lparr>db = empty_db, ops = 0, draws = 0, clock = 1000\<rparr>"


text \<open>
  Two environments with a credential for the embedding provider: one whose provider
  answers every request with a two-element vector, one whose provider is unreachable.
\<close>

definition voyage_env :: env where
  "voyage_env =
     offline_env
       \<lparr>voyage_api_key := Some (str ''voyage-key''),
        voyage_fetch :=
          (\<lambda>_ _. Inr \<lparr>v_ok = True, v_statusText = (str ''OK''), v_json = Inr [[0.25, -0.5]]\<rparr>)\<rparr>"

definition voyage_down_env :: env where
  "voyage_down_env = offline_env\<lparr>voyage_api_key := Some (str ''voyage-key'')\<rparr>"

text \<open>A requirement set with the single skill \<open>React\<close>, and worlds holding given experts.\<close>

definition react_only :: requirements where
  "react_only =
     \<lparr>skills = [\<lparr>rs_name = (str ''React''), weight = 0.8\<rparr>], constraints = [],
      intent = (str ''technical_hire''), summary = (str ''React developer'')\<rparr>"

definition world_with :: "expert list \<Rightarrow> world" where
  "world_with xs = empty_world\<lparr>db := empty_db\<lparr>experts := xs\<rparr>\<rparr>"

text \<open>Two orchestrators, and a world whose result cache holds one unexpired entry.\<close>

definition alpha_orch :: orchestrator where
  "alpha_orch = \<lparr>o_queryId = (str ''query_1''), o_taskId = (str ''task_1'')\<rparr>"

definition beta_orch :: orchestrator where
  "beta_orch = \<lparr>o_queryId = (str ''query_2''), o_taskId = (str ''task_2'')\<rparr>"

definition cached_entry :: result_entry where
  "cached_entry =
     \<lparr>queryHash = (str ''react lead''), originalQuery = (str ''React lead''),
      r_result =
        \<lparr>fr_queryId = (str ''query_0''),
         matches = [\<lparr>em_expert = react_expert, matchScore = Fin 0.7,
                     reasoning = [(str ''Strong match on skills'')], matchedBy = Recommender\<rparr>],
         conversation = [\<lparr>m_agent = Analyst, m_message = (str ''Analyzing query requirements...''),
                          m_data = None, m_timestamp = 500\<rparr>]\<rparr>,
      r_createdAt = 500, expiresAt = 3600500\<rparr>"

definition cached_world :: world where
  "cached_world = empty_world\<lparr>db := empty_db\<lparr>cache_search_results := [cached_entry]\<rparr>\<rparr>"

text \<open>
  An environment whose store rejects every operation from the fifth on (the operations
  are counted from 0), each with an error that carries its number.
\<close>

definition outage_env :: env where
  "outage_env =
     offline_env\<lparr>store_fault := (\<lambda>n. if n \<ge> 4 then Some (StoreError (show_nat n)) else None)\<rparr>"








section \<open>Strings of ASCII literals\<close>

lemma str_eq_iff [simp]: "str a = str b \<longleftrightarrow> a = b"
  by (simp add: str_def inj_map_eq_map inj_on_def)

lemma str_Nil_iff [simp]: "str a = [] \<longleftrightarrow> a = []" "[] = str a \<longleftrightarrow> a = []"
  by (auto simp add: str_def)

lemma length_str [simp]: "length (str a) = length a"
  by (simp add: str_def)

lemma toLowerCase_ascii: "is_ascii s \<Longrightarrow> toLowerCase E s = map lower_unit s"
  by (simp add: toLowerCase_def)

lemma toUpperCase_ascii: "is_ascii s \<Longrightarrow> toUpperCase E s = map upper_unit s"
  by (simp add: toUpperCase_def)

section \<open>Properties of the scoring functions\<close>





text \<open>
  Claim C4. The renown constraint of a requirement set is the one that
  \<^verbatim>\<open>constraints.find(c => c.type === 'renown')\<close> returns. When its value is \<open>popular\<close>,
  \<open>renownMatch\<close> is 1.0 for a candidate classified \<open>famous\<close>, 0.8 for \<open>established\<close>,
  0.4 for \<open>rising\<close> and 0.1 otherwise; when its value is \<open>hidden\<close>, it is 1.0 for
  \<open>hidden\<close>, 0.7 for \<open>rising\<close> and 0.2 otherwise; when the requirement set has no renown
  constraint, it is 0.5.
\<close>

theorem renownMatch_table:
  "(renownConstraint (Some r) = Some rc \<and> c_value rc = (str ''popular'') \<longrightarrow>
      calculateRenownMatch E e (Some r) =
        (if renownLevel e = Some (str ''famous'') then 1.0
         else if renownLevel e = Some (str ''established'') then 0.8
         else if renownLevel e = Some (str ''rising'') then 0.4
         else 0.1)) \<and>
   (renownConstraint (Some r) = Some rc \<and> c_value rc = (str ''hidden'') \<longrightarrow>
      calculateRenownMatch E e (Some r) =
        (if actualRenown e = (str ''hidden'') then 1.0
         else if renownLevel e = Some (str ''rising'') then 0.7
         else 0.2)) \<and>
   (renownConstraint (Some r) = None \<longrightarrow> calculateRenownMatch E e (Some r) = 0.5)"
  by (auto simp add: calculateRenownMatch_def actualRenown_def toLowerCase_def lower_unit_def is_ascii_def str_def
        split: option.split)

theorem renownMatch_table_witness:
  "renownConstraint (Some (react_requirements [popular_constraint])) = Some popular_constraint \<and>
   c_value popular_constraint = (str ''popular'') \<and>
   calculateRenownMatch offline_env react_expert (Some (react_requirements [popular_constraint])) = 1 \<and>
   renownConstraint (Some (react_requirements [hidden_constraint])) = Some hidden_constraint \<and>
   c_value hidden_constraint = (str ''hidden'') \<and>
   calculateRenownMatch offline_env react_expert (Some (react_requirements [hidden_constraint])) = 0.2 \<and>
   renownConstraint (Some (react_requirements [])) = None \<and>
   calculateRenownMatch offline_env react_expert (Some (react_requirements [])) = 0.5"
  using renownMatch_table [of "react_requirements [popular_constraint]" popular_constraint
          offline_env react_expert]
        renownMatch_table [of "react_requirements [hidden_constraint]" hidden_constraint
          offline_env react_expert]
        renownMatch_table [of "react_requirements []" popular_constraint offline_env
          react_expert]
  by (simp add: renownConstraint_def react_requirements_def popular_constraint_def
        hidden_constraint_def react_expert_def actualRenown_def)

text \<open>
  Claim C9. A candidate whose renown classification is absent is treated as \<open>hidden\<close>:
  with a renown constraint of value \<open>hidden\<close> \<open>renownMatch\<close> is 1.0, with one of value
  \<open>popular\<close> it is 0.1.
\<close>

theorem renownMatch_absent:
  assumes "renownLevel e = None" and "renownConstraint reqs = Some rc"
  shows "(c_value rc = (str ''hidden'') \<longrightarrow> calculateRenownMatch E e reqs = 1.0) \<and>
         (c_value rc = (str ''popular'') \<longrightarrow> calculateRenownMatch E e reqs = 0.1)"
  using assms
  by (simp add: calculateRenownMatch_def actualRenown_def toLowerCase_def lower_unit_def is_ascii_def str_def)

theorem renownMatch_absent_witness:
  "renownLevel python_expert = None \<and>
   renownConstraint (Some (react_requirements [hidden_constraint])) = Some hidden_constraint \<and>
   renownConstraint (Some (react_requirements [popular_constraint])) = Some popular_constraint \<and>
   calculateRenownMatch offline_env python_expert (Some (react_requirements [hidden_constraint])) = 1 \<and>
   calculateRenownMatch offline_env python_expert (Some (react_requirements [popular_constraint])) = 0.1"
proof -
  have a: "renownLevel python_expert = None"
    by (simp add: python_expert_def)
  have h: "renownConstraint (Some (react_requirements [hidden_constraint])) = Some hidden_constraint"
    by (simp add: renownConstraint_def react_requirements_def hidden_constraint_def)
  have p: "renownConstraint (Some (react_requirements [popular_constraint])) = Some popular_constraint"
    by (simp add: renownConstraint_def react_requirements_def popular_constraint_def)
  show ?thesis
    using a h p renownMatch_absent [OF a h, of offline_env]
      renownMatch_absent [OF a p, of offline_env]
    by (simp add: hidden_constraint_def popular_constraint_def)
qed



lemma skill_loop_rt_exact:
  assumes "exact_arith E"
  shows "skill_loop_rt E names rs (Fin t, Fin m) =
           (Fin (fst (skill_loop E names rs (t, m))), Fin (snd (skill_loop E names rs (t, m))))"
  using assms
  by (induction rs arbitrary: t m) (simp_all add: exact_arith_def)

lemma computedScore_exact:
  assumes "exact_arith E"
  shows "computedScore E e reqs = Fin (matchScoreOf E e reqs)"
proof -
  have lit: "\<And>x. num_lit E x = Fin x"
    and add: "\<And>a b. num_add E (Fin a) (Fin b) = Fin (a + b)"
    and mul: "\<And>a b. num_mul E (Fin a) (Fin b) = Fin (a * b)"
    and quot: "\<And>a b. b \<noteq> 0 \<Longrightarrow> num_div E (Fin a) (Fin b) = Fin (a / b)"
    using assms by (simp_all add: exact_arith_def)
  have "calculateSkillMatch_rt E e reqs = Fin (calculateSkillMatch E e reqs)"
  proof (cases reqs)
    case None
    then show ?thesis by (simp add: calculateSkillMatch_rt_def calculateSkillMatch_def lit)
  next
    case (Some r)
    let ?names = "map (\<lambda>s. toLowerCase E (sk_name s)) (e_skills e)"
    obtain t m where tm: "skill_loop E ?names (skills r) (0, 0) = (t, m)"
      by (cases "skill_loop E ?names (skills r) (0, 0)") auto
    then have rt: "skill_loop_rt E ?names (skills r) (Fin 0, Fin 0) = (Fin t, Fin m)"
      using skill_loop_rt_exact [OF assms, of ?names "skills r" 0 0] by simp
    show ?thesis
      using Some tm rt
      by (simp add: calculateSkillMatch_rt_def calculateSkillMatch_def lit quot num_pos_def)
  qed
  then show ?thesis
    by (simp add: computedScore_def matchScoreOf_def lit add mul num_min1_def)
qed

section \<open>Properties of the Requirement Analyst's parser\<close>

lemma heuristicSkills_spec: "heuristicSkills E q = heuristic_spec E q"
  by (simp add: heuristicSkills_def heuristic_spec_def not_le conj_commute)

lemma heuristicSkills_kubernetes:
  "heuristicSkills E (str ''Kubernetes expert'') = [\<lparr>rs_name = (str ''Kubernetes''), weight = 0.8\<rparr>]"
  by (simp add: heuristicSkills_def split_ws.simps toLowerCase_def lower_unit_def is_ascii_def str_def is_space_def
      stop_words_def capitalize_def toUpperCase_def upper_unit_def)

lemma chat_without_key:
  "fireworks_api_key E = None \<Longrightarrow> chat E ms os = Inl (Error (str ''FIREWORKS_API_KEY not set''))"
  by (simp add: chat_def truthy_def)

text \<open>
  Claim C8, as stated, fails: when the provider returns JSON whose \<^verbatim>\<open>skills\<close> is not an
  array, only the skills are the heuristic ones; \<^verbatim>\<open>constraints\<close> and \<^verbatim>\<open>summary\<close> are still
  taken from the parsed value, so the constraint list need not be empty and the summary
  need not be the raw query.
\<close>

theorem parseQuery_non_array_counterexample:
  "parseQuery_chat odd_shape_env (str ''Kubernetes expert'') = Inr odd_shape_text \<and>
   json_parse odd_shape_env odd_shape_text = Inr odd_shape_json \<and>
   pj_skills odd_shape_json = NotArray \<and>
   parseQuery odd_shape_env (str ''Kubernetes expert'') =
     Inr \<lparr>skills = [\<lparr>rs_name = (str ''Kubernetes''), weight = 0.8\<rparr>],
          constraints = [\<lparr>c_type = (str ''renown''), c_value = (str ''popular'')\<rparr>],
          intent = (str ''technical_hire''),
          summary = (str ''Well-known Kubernetes people'')\<rparr> \<and>
   parseQuery odd_shape_env (str ''Kubernetes expert'') \<noteq> Inr (defaultResult odd_shape_env (str ''Kubernetes expert''))"
  by (simp add: parseQuery_def parseQuery_chat_def chat_def truthy_def sbind_def scatch_def
      odd_shape_env_def offline_env_def odd_shape_json_def defaultResult_def
      heuristicSkills_kubernetes popular_constraint_def)

text \<open>
  Claim C8, amended. \<^verbatim>\<open>parseQuery\<close> never throws. When the completion call fails or its
  answer is not parsable JSON, it returns the heuristic result: the raw query lower-cased
  and split on white space, stop-words and tokens of length at most 3 removed, at most
  three tokens kept, each capitalized with weight 0.8, an empty constraint list, the
  intent \<open>technical_hire\<close> and the raw query as the summary. When the answer parses and its
  \<^verbatim>\<open>skills\<close> is not an array, the skills are the heuristic ones, the constraints are the
  parsed ones when they are an array and empty otherwise, and the summary is the parsed
  one when it is truthy and the raw query otherwise. For the query \<open>Kubernetes expert\<close>
  with no provider credential the only skill is \<open>Kubernetes\<close> with weight 0.8.
\<close>

theorem parseQuery_fallback:
  "(\<exists>r. parseQuery E q = Inr r) \<and>
   defaultResult E q =
     \<lparr>skills = heuristic_spec E q, constraints = [], intent = (str ''technical_hire''), summary = q\<rparr> \<and>
   (\<forall>e. parseQuery_chat E q = Inl e \<longrightarrow> parseQuery E q = Inr (defaultResult E q)) \<and>
   (\<forall>response e. parseQuery_chat E q = Inr response \<and> json_parse E response = Inl e \<longrightarrow>
      parseQuery E q = Inr (defaultResult E q)) \<and>
   (\<forall>response parsed.
      parseQuery_chat E q = Inr response \<and> json_parse E response = Inr parsed \<and>
      pj_skills parsed = NotArray \<longrightarrow>
      parseQuery E q =
        Inr \<lparr>skills = heuristic_spec E q,
             constraints = (case pj_constraints parsed of IsArray cs \<Rightarrow> cs | NotArray \<Rightarrow> []),
             intent = (if truthy (pj_intent parsed) then the (pj_intent parsed)
                       else (str ''technical_hire'')),
             summary = (if truthy (pj_summary parsed) then the (pj_summary parsed) else q)\<rparr>) \<and>
   (fireworks_api_key E = None \<longrightarrow>
      parseQuery E (str ''Kubernetes expert'') =
        Inr \<lparr>skills = [\<lparr>rs_name = (str ''Kubernetes''), weight = 0.8\<rparr>], constraints = [],
             intent = (str ''technical_hire''), summary = (str ''Kubernetes expert'')\<rparr>)"
proof -
  have total: "\<exists>r. parseQuery E q = Inr r"
    by (auto simp: parseQuery_def scatch_def sbind_def split: sum.split)
  have dflt: "defaultResult E q =
      \<lparr>skills = heuristic_spec E q, constraints = [], intent = (str ''technical_hire''), summary = q\<rparr>"
    by (simp add: defaultResult_def heuristicSkills_spec)
  have call: "\<forall>e. parseQuery_chat E q = Inl e \<longrightarrow> parseQuery E q = Inr (defaultResult E q)"
    by (simp add: parseQuery_def scatch_def sbind_def)
  have parse: "\<forall>response e. parseQuery_chat E q = Inr response \<and> json_parse E response = Inl e
      \<longrightarrow> parseQuery E q = Inr (defaultResult E q)"
    by (simp add: parseQuery_def scatch_def sbind_def)
  have shape: "\<forall>response parsed.
      parseQuery_chat E q = Inr response \<and> json_parse E response = Inr parsed \<and>
      pj_skills parsed = NotArray \<longrightarrow>
      parseQuery E q =
        Inr \<lparr>skills = heuristic_spec E q,
             constraints = (case pj_constraints parsed of IsArray cs \<Rightarrow> cs | NotArray \<Rightarrow> []),
             intent = (if truthy (pj_intent parsed) then the (pj_intent parsed)
                       else (str ''technical_hire'')),
             summary = (if truthy (pj_summary parsed) then the (pj_summary parsed) else q)\<rparr>"
    by (simp add: parseQuery_def scatch_def sbind_def defaultResult_def heuristicSkills_spec)
  have kube: "fireworks_api_key E = None \<longrightarrow>
      parseQuery E (str ''Kubernetes expert'') =
        Inr \<lparr>skills = [\<lparr>rs_name = (str ''Kubernetes''), weight = 0.8\<rparr>], constraints = [],
             intent = (str ''technical_hire''), summary = (str ''Kubernetes expert'')\<rparr>"
    by (simp add: parseQuery_def parseQuery_chat_def chat_without_key scatch_def sbind_def
        defaultResult_def heuristicSkills_kubernetes)
  from total dflt call parse shape kube show ?thesis by blast
qed

theorem parseQuery_fallback_witness:
  "fireworks_api_key offline_env = None \<and>
   parseQuery_chat offline_env (str ''Kubernetes expert'') = Inl (Error (str ''FIREWORKS_API_KEY not set'')) \<and>
   parseQuery offline_env (str ''Kubernetes expert'') = Inr (defaultResult offline_env (str ''Kubernetes expert'')) \<and>
   parseQuery offline_env (str ''Kubernetes expert'') =
     Inr \<lparr>skills = [\<lparr>rs_name = (str ''Kubernetes''), weight = 0.8\<rparr>], constraints = [],
          intent = (str ''technical_hire''), summary = (str ''Kubernetes expert'')\<rparr>"
proof -
  have k: "fireworks_api_key offline_env = None"
    by (simp add: offline_env_def)
  have c: "parseQuery_chat offline_env (str ''Kubernetes expert'') = Inl (Error (str ''FIREWORKS_API_KEY not set''))"
    by (simp add: parseQuery_chat_def chat_without_key [OF k])
  note t = parseQuery_fallback [of offline_env "(str ''Kubernetes expert'')"]
  have d: "parseQuery offline_env (str ''Kubernetes expert'') = Inr (defaultResult offline_env (str ''Kubernetes expert''))"
    using t c by blast
  have s: "parseQuery offline_env (str ''Kubernetes expert'') =
     Inr \<lparr>skills = [\<lparr>rs_name = (str ''Kubernetes''), weight = 0.8\<rparr>], constraints = [],
          intent = (str ''technical_hire''), summary = (str ''Kubernetes expert'')\<rparr>"
    using t k by blast
  from k c d s show ?thesis by blast
qed

section \<open>Laws of the program monad\<close>



section \<open>Properties of the Ranker\<close>



























section \<open>Properties of the embedding cache gateway\<close>

lemma list_all_update_first:
  "list_all P xs \<Longrightarrow> (\<And>x. P x \<Longrightarrow> P (f x)) \<Longrightarrow> list_all P (update_first p f xs)"
  by (induction xs) auto

lemma list_all_upsert: "list_all P xs \<Longrightarrow> P new \<Longrightarrow> list_all P (upsert p new xs)"
  by (auto simp: upsert_def list_all_update_first split: option.split)

lemma cachedEmbedding_Inl:
  "cachedEmbedding E key tx w = (Inl e, w1) \<Longrightarrow> db w1 = db w \<and> draws w1 = draws w"
  by (auto simp: cachedEmbedding_def Let_def bnd_def getDb_def store_op_def lift_def throw_def
      ret_def now_def split: prod.splits sum.splits option.splits if_splits list.splits)

lemma cachedEmbedding_Inr:
  "cachedEmbedding E key tx w = (Inr v, w1) \<Longrightarrow>
   draws w1 = draws w \<and>
   (db w1 = db w \<and>
      (\<exists>c. find (\<lambda>c. textHash c = sha256 E tx) (cache_embeddings (db w)) = Some c \<and>
           v = embedding c) \<or>
    (\<exists>resp rest.
       voyage_fetch E key tx = Inr resp \<and> v_ok resp \<and> v_json resp = Inr (v # rest) \<and>
       db w1 = (db w)\<lparr>cache_embeddings :=
                  upsert (\<lambda>c. textHash c = sha256 E tx)
                    \<lparr>textHash = sha256 E tx, text_preview = take 500 tx, embedding = v,
                     c_createdAt = clock w\<rparr>
                    (cache_embeddings (db w))\<rparr>))"
  by (auto simp: cachedEmbedding_def Let_def bnd_def getDb_def store_op_def lift_def throw_def
      ret_def now_def split: prod.splits sum.splits option.splits if_splits list.splits)

lemma mockEmbedding_eq:
  "mockEmbedding E w = (Inr (mock_vector E w), w\<lparr>draws := draws w + 1024\<rparr>)"
  by (simp add: mockEmbedding_def)

lemma generateEmbedding_no_key:
  "\<not> truthy (voyage_api_key E) \<Longrightarrow>
   generateEmbedding E tx w = (Inr (mock_vector E w), w\<lparr>draws := draws w + 1024\<rparr>)"
  by (simp add: generateEmbedding_def mockEmbedding_eq)

lemma generateEmbedding_caught:
  assumes "truthy (voyage_api_key E)"
    and "cachedEmbedding E (the (voyage_api_key E)) tx w = (Inl e, w1)"
  shows "generateEmbedding E tx w = (Inr (mock_vector E w), w1\<lparr>draws := draws w + 1024\<rparr>)"
    and "db w1 = db w"
proof -
  from cachedEmbedding_Inl [OF assms(2)] have d: "db w1 = db w" "draws w1 = draws w" by simp_all
  show "db w1 = db w" by (rule d)
  have "mock_vector E w1 = mock_vector E w" using d by (simp add: mock_vector_def)
  then show "generateEmbedding E tx w = (Inr (mock_vector E w), w1\<lparr>draws := draws w + 1024\<rparr>)"
    using assms d by (simp add: generateEmbedding_def try_catch_def mockEmbedding_eq)
qed

lemma cachedEmbedding_store_down:
  "store_fault E (ops w) = Some e \<Longrightarrow>
   cachedEmbedding E key tx w = (Inl e, w\<lparr>ops := Suc (ops w)\<rparr>)"
  by (simp add: cachedEmbedding_def Let_def bnd_def getDb_def store_op_def)

lemma cachedEmbedding_provider_down:
  assumes "store_fault E (ops w) = None" and "store_fault E (Suc (ops w)) = None"
    and "find (\<lambda>c. textHash c = sha256 E tx) (cache_embeddings (db w)) = None"
    and "voyage_fetch E key tx = Inl e \<or>
         (\<exists>resp. voyage_fetch E key tx = Inr resp \<and> \<not> v_ok resp)"
  shows "\<exists>e'. cachedEmbedding E key tx w = (Inl e', w\<lparr>ops := Suc (Suc (ops w))\<rparr>)"
  using assms
  by (auto simp: cachedEmbedding_def Let_def bnd_def getDb_def store_op_def lift_def throw_def)

lemma generateEmbedding_invariant:
  assumes "generateEmbedding E tx w = (r, w')" and "cache_from_provider E (db w)"
  shows "cache_from_provider E (db w')"
proof (cases "truthy (voyage_api_key E)")
  case False
  then show ?thesis using assms by (auto simp: generateEmbedding_no_key)
next
  case True
  obtain r1 w1 where c: "cachedEmbedding E (the (voyage_api_key E)) tx w = (r1, w1)"
    by (cases "cachedEmbedding E (the (voyage_api_key E)) tx w") auto
  show ?thesis
  proof (cases r1)
    case (Inl e)
    with generateEmbedding_caught [OF True, of tx w e w1] c assms show ?thesis by auto
  next
    case (Inr v)
    then have g: "generateEmbedding E tx w = (Inr v, w1)"
      using True c by (simp add: generateEmbedding_def try_catch_def)
    from cachedEmbedding_Inr [of E _ tx w v w1] c Inr
    consider (same) "db w1 = db w"
      | (stored) "from_provider E v"
          "\<exists>entry. embedding entry = v \<and>
             db w1 = (db w)\<lparr>cache_embeddings :=
                  upsert (\<lambda>c. textHash c = sha256 E tx) entry (cache_embeddings (db w))\<rparr>"
      unfolding from_provider_def by fastforce
    then show ?thesis
    proof cases
      case same
      then show ?thesis using g assms by simp
    next
      case stored
      then show ?thesis
        using g assms by (auto simp: cache_from_provider_def intro: list_all_upsert)
    qed
  qed
qed

lemma generateEmbedding_returns: "\<exists>v w'. generateEmbedding E tx w = (Inr v, w')"
proof (cases "truthy (voyage_api_key E)")
  case False
  then show ?thesis by (simp add: generateEmbedding_no_key)
next
  case True
  then show ?thesis
    by (auto simp: generateEmbedding_def try_catch_def mockEmbedding_eq split: prod.split sum.split)
qed

text \<open>
  Claim C10. \<^verbatim>\<open>generateEmbedding\<close> never stores a fallback vector in the embedding cache.
  Without a provider credential it issues no store operation and returns 1024 fresh
  draws; when the \<^verbatim>\<open>try\<close> block throws, which a rejected store operation and a failed
  provider call both cause, it returns 1024 fresh draws and the store is as it was; every
  call keeps the invariant that each cached vector comes from a successful provider
  response; and the call never throws.
\<close>

theorem generateEmbedding_cache_sound:
  "(\<not> truthy (voyage_api_key E) \<longrightarrow>
      generateEmbedding E tx w = (Inr (mock_vector E w), w\<lparr>draws := draws w + 1024\<rparr>)) \<and>
   length (mock_vector E w) = 1024 \<and>
   (\<forall>e w1. truthy (voyage_api_key E) \<and>
        cachedEmbedding E (the (voyage_api_key E)) tx w = (Inl e, w1) \<longrightarrow>
        generateEmbedding E tx w = (Inr (mock_vector E w), w1\<lparr>draws := draws w + 1024\<rparr>) \<and>
        db w1 = db w) \<and>
   (\<forall>e. store_fault E (ops w) = Some e \<longrightarrow>
        cachedEmbedding E (the (voyage_api_key E)) tx w = (Inl e, w\<lparr>ops := Suc (ops w)\<rparr>)) \<and>
   (store_fault E (ops w) = None \<and> store_fault E (Suc (ops w)) = None \<and>
    find (\<lambda>c. textHash c = sha256 E tx) (cache_embeddings (db w)) = None \<and>
    ((\<exists>e. voyage_fetch E (the (voyage_api_key E)) tx = Inl e) \<or>
     (\<exists>resp. voyage_fetch E (the (voyage_api_key E)) tx = Inr resp \<and> \<not> v_ok resp)) \<longrightarrow>
      (\<exists>e'. cachedEmbedding E (the (voyage_api_key E)) tx w =
             (Inl e', w\<lparr>ops := Suc (Suc (ops w))\<rparr>))) \<and>
   (\<forall>r w'. generateEmbedding E tx w = (r, w') \<and> cache_from_provider E (db w) \<longrightarrow>
        cache_from_provider E (db w')) \<and>
   (\<exists>v w'. generateEmbedding E tx w = (Inr v, w'))"
proof (intro conjI allI impI)
  show "length (mock_vector E w) = 1024" by (simp add: mock_vector_def)
next
  fix e
  assume "\<not> truthy (voyage_api_key E)"
  then show "generateEmbedding E tx w = (Inr (mock_vector E w), w\<lparr>draws := draws w + 1024\<rparr>)"
    by (rule generateEmbedding_no_key)
next
  fix e w1
  assume a: "truthy (voyage_api_key E) \<and>
        cachedEmbedding E (the (voyage_api_key E)) tx w = (Inl e, w1)"
  then show "generateEmbedding E tx w = (Inr (mock_vector E w), w1\<lparr>draws := draws w + 1024\<rparr>)"
    using generateEmbedding_caught(1) by blast
  from a show "db w1 = db w" using generateEmbedding_caught(2) by blast
next
  fix e
  assume "store_fault E (ops w) = Some e"
  then show "cachedEmbedding E (the (voyage_api_key E)) tx w = (Inl e, w\<lparr>ops := Suc (ops w)\<rparr>)"
    by (rule cachedEmbedding_store_down)
next
  assume "store_fault E (ops w) = None \<and> store_fault E (Suc (ops w)) = None \<and>
    find (\<lambda>c. textHash c = sha256 E tx) (cache_embeddings (db w)) = None \<and>
    ((\<exists>e. voyage_fetch E (the (voyage_api_key E)) tx = Inl e) \<or>
     (\<exists>resp. voyage_fetch E (the (voyage_api_key E)) tx = Inr resp \<and> \<not> v_ok resp))"
  then show "\<exists>e'. cachedEmbedding E (the (voyage_api_key E)) tx w =
             (Inl e', w\<lparr>ops := Suc (Suc (ops w))\<rparr>)"
    using cachedEmbedding_provider_down [of E w tx "the (voyage_api_key E)"] by blast
next
  fix r w'
  assume "generateEmbedding E tx w = (r, w') \<and> cache_from_provider E (db w)"
  then show "cache_from_provider E (db w')"
    using generateEmbedding_invariant by blast
next
  show "\<exists>v w'. generateEmbedding E tx w = (Inr v, w')"
    by (rule generateEmbedding_returns)
qed

theorem generateEmbedding_cache_sound_witness:
  "generateEmbedding offline_env (str ''rust developer'') empty_world =
     (Inr (mock_vector offline_env empty_world), empty_world\<lparr>draws := 1024\<rparr>) \<and>
   generateEmbedding voyage_down_env (str ''rust developer'') empty_world =
     (Inr (mock_vector voyage_down_env empty_world), empty_world\<lparr>ops := 2, draws := 1024\<rparr>) \<and>
   cache_embeddings (db (snd (generateEmbedding voyage_env (str ''rust developer'') empty_world))) =
     [\<lparr>textHash = (str ''rust developer''), text_preview = (str ''rust developer''),
       embedding = [0.25, -0.5], c_createdAt = 1000\<rparr>] \<and>
   cache_from_provider voyage_env
     (db (snd (generateEmbedding voyage_env (str ''rust developer'') empty_world)))"
proof -
  have nokey: "\<not> truthy (voyage_api_key offline_env)"
    by (simp add: truthy_def offline_env_def)
  have a: "generateEmbedding offline_env (str ''rust developer'') empty_world =
     (Inr (mock_vector offline_env empty_world), empty_world\<lparr>draws := 1024\<rparr>)"
    using generateEmbedding_cache_sound [of offline_env "(str ''rust developer'')" empty_world] nokey
    by (simp add: empty_world_def)
  have key: "truthy (voyage_api_key voyage_down_env)"
    "the (voyage_api_key voyage_down_env) = (str ''voyage-key'')"
    by (simp_all add: truthy_def voyage_down_env_def offline_env_def)
  have down: "cachedEmbedding voyage_down_env (str ''voyage-key'') (str ''rust developer'') empty_world =
     (Inl (Error (str ''fetch failed'')), empty_world\<lparr>ops := 2\<rparr>)"
    by (simp add: cachedEmbedding_def Let_def bnd_def getDb_def store_op_def lift_def
        voyage_down_env_def offline_env_def empty_world_def empty_db_def)
  have b: "generateEmbedding voyage_down_env (str ''rust developer'') empty_world =
     (Inr (mock_vector voyage_down_env empty_world), empty_world\<lparr>ops := 2, draws := 1024\<rparr>)"
    using generateEmbedding_cache_sound [of voyage_down_env "(str ''rust developer'')" empty_world]
      key down
    by (simp add: empty_world_def)
  have run: "generateEmbedding voyage_env (str ''rust developer'') empty_world =
     (Inr [0.25, -0.5],
      empty_world\<lparr>db := empty_db\<lparr>cache_embeddings :=
          [\<lparr>textHash = (str ''rust developer''), text_preview = (str ''rust developer''),
            embedding = [0.25, -0.5], c_createdAt = 1000\<rparr>]\<rparr>, ops := 3\<rparr>)"
    by (simp add: generateEmbedding_def try_catch_def cachedEmbedding_def Let_def bnd_def
        getDb_def store_op_def lift_def ret_def now_def truthy_def upsert_def voyage_env_def
        offline_env_def empty_world_def empty_db_def)
  have inv0: "cache_from_provider voyage_env (db empty_world)"
    by (simp add: cache_from_provider_def empty_world_def empty_db_def)
  have c: "cache_from_provider voyage_env
     (db (snd (generateEmbedding voyage_env (str ''rust developer'') empty_world)))"
    using generateEmbedding_cache_sound [of voyage_env "(str ''rust developer'')" empty_world] inv0
    by (metis prod.collapse)
  from a b c run show ?thesis by simp
qed

section \<open>Frame lemmas\<close>

lemma stage_frame_refl: "stage_frame d d"
  by (simp add: stage_frame_def)

lemma stage_frame_trans: "stage_frame a b \<Longrightarrow> stage_frame b c \<Longrightarrow> stage_frame a c"
  by (simp add: stage_frame_def)

lemma framesD:
  "frames m \<Longrightarrow> m w = (r, w') \<Longrightarrow> stage_frame (db w) (db w') \<and> clock w' = clock w"
  by (simp add: frames_def)

lemma frames_ret: "frames (ret a)"
  by (simp add: frames_def ret_def stage_frame_refl)

lemma frames_throw: "frames (throw e)"
  by (simp add: frames_def throw_def stage_frame_refl)

lemma frames_lift: "frames (lift r)"
  by (simp add: frames_def lift_def stage_frame_refl)

lemma frames_now: "frames now"
  by (auto simp: frames_def now_def stage_frame_refl)

lemma frames_bnd:
  assumes "frames m" and "\<And>a. frames (f a)"
  shows "frames (bnd m f)"
  unfolding frames_def
proof (intro allI impI)
  fix w r w'
  assume run: "bnd m f w = (r, w')"
  obtain r1 w1 where m: "m w = (r1, w1)" by (cases "m w") auto
  from framesD [OF assms(1) m] have f1: "stage_frame (db w) (db w1)" "clock w1 = clock w"
    by simp_all
  show "stage_frame (db w) (db w') \<and> clock w' = clock w"
  proof (cases r1)
    case (Inl e)
    with run m have "w' = w1" by (simp add: bnd_def)
    with f1 show ?thesis by simp
  next
    case (Inr a)
    with run m have "f a w1 = (r, w')" by (simp add: bnd_def)
    from framesD [OF assms(2) this] f1 show ?thesis
      by (auto intro: stage_frame_trans)
  qed
qed

lemma frames_try_catch:
  assumes "frames m" and "\<And>e. frames (h e)"
  shows "frames (try_catch m h)"
  unfolding frames_def
proof (intro allI impI)
  fix w r w'
  assume run: "try_catch m h w = (r, w')"
  obtain r1 w1 where m: "m w = (r1, w1)" by (cases "m w") auto
  from framesD [OF assms(1) m] have f1: "stage_frame (db w) (db w1)" "clock w1 = clock w"
    by simp_all
  show "stage_frame (db w) (db w') \<and> clock w' = clock w"
  proof (cases r1)
    case (Inr a)
    with run m have "w' = w1" by (simp add: try_catch_def)
    with f1 show ?thesis by simp
  next
    case (Inl e)
    with run m have "h e w1 = (r, w')" by (simp add: try_catch_def)
    from framesD [OF assms(2) this] f1 show ?thesis
      by (auto intro: stage_frame_trans)
  qed
qed

lemma frames_store_op:
  assumes "\<And>d. stage_frame d (snd (f d))"
  shows "frames (store_op E f)"
  unfolding frames_def
proof (intro allI impI)
  fix w r w'
  assume "store_op E f w = (r, w')"
  then have "db w' = db w \<or> db w' = snd (f (db w))" and "clock w' = clock w"
    by (auto simp: store_op_def split: option.splits prod.splits)
  then show "stage_frame (db w) (db w') \<and> clock w' = clock w"
    using assms [of "db w"] by (auto simp: stage_frame_refl)
qed

lemma frames_store_try: "frames (store_try E f)"
  by (auto simp: frames_def store_try_def stage_frame_refl split: option.splits)

lemma frames_getDb: "frames (getDb E)"
  unfolding getDb_def by (rule frames_store_op) (simp add: stage_frame_refl)

lemma map_update_first:
  "(\<And>x. g (f x) = g x) \<Longrightarrow> map g (update_first p f xs) = map g xs"
  by (induction xs) auto

lemma frames_agent_log: "frames (agent_log E a qid msg dat)"
  unfolding agent_log_def
  by (intro frames_bnd frames_getDb frames_now frames_store_op)
     (simp add: stage_frame_def map_update_first query_key_def)

lemma frames_mockEmbedding: "frames (mockEmbedding E)"
  by (simp add: frames_def mockEmbedding_def stage_frame_refl)

lemma frames_case_option:
  "frames n \<Longrightarrow> (\<And>x. frames (s x)) \<Longrightarrow> frames (case v of None \<Rightarrow> n | Some x \<Rightarrow> s x)"
  by (cases v) auto

lemma frames_case_list:
  "frames n \<Longrightarrow> (\<And>x xs. frames (c x xs)) \<Longrightarrow> frames (case v of [] \<Rightarrow> n | x # xs \<Rightarrow> c x xs)"
  by (cases v) auto

lemma frames_if: "frames a \<Longrightarrow> frames b \<Longrightarrow> frames (if c then a else b)"
  by simp

lemmas frames_intros =
  frames_bnd frames_try_catch frames_ret frames_throw frames_lift frames_now frames_getDb
  frames_agent_log frames_mockEmbedding frames_store_try frames_case_option frames_case_list
  frames_if

lemma frames_cachedEmbedding: "frames (cachedEmbedding E key tx)"
  unfolding cachedEmbedding_def Let_def
  by (intro frames_intros frames_store_op) (simp_all add: stage_frame_def)

lemma frames_generateEmbedding: "frames (generateEmbedding E tx)"
  unfolding generateEmbedding_def
  by (intro frames_intros frames_cachedEmbedding)

lemma frames_analyst: "frames (QueryAnalystAgent_execute E qid q)"
  unfolding QueryAnalystAgent_execute_def
  by (intro frames_intros)

lemma frames_chooseMatchStage: "frames (chooseMatchStage E qid reqs)"
  unfolding chooseMatchStage_def Let_def
  by (intro frames_intros)

lemma frames_vectorSearch: "frames (vectorSearch E qid reqs v)"
  unfolding vectorSearch_def
  by (intro frames_intros frames_chooseMatchStage)

lemma frames_textSearch: "frames (textSearch E qid reqs)"
  unfolding textSearch_def
  by (intro frames_intros frames_store_op) (simp add: stage_frame_refl)

lemma frames_scoutQueryVector: "frames (scoutQueryVector E qid q)"
  unfolding scoutQueryVector_def generateQueryEmbedding_def
  by (intro frames_intros frames_generateEmbedding)

lemma frames_scout: "frames (ProfileScoutAgent_execute E qid reqs q)"
  unfolding ProfileScoutAgent_execute_def
  by (intro frames_intros frames_scoutQueryVector frames_vectorSearch frames_textSearch)

lemma frames_verifier: "frames (VerifierAgent_execute E qid cs)"
  unfolding VerifierAgent_execute_def Let_def
  by (intro frames_intros)

lemma frames_recommender: "frames (RecommenderAgent_execute E qid cs q reqs)"
  unfolding RecommenderAgent_execute_def Let_def
  by (intro frames_intros)

lemma frames_runStages: "frames (runStages E orch q)"
  unfolding runStages_def
  by (intro frames_intros frames_analyst frames_scout frames_verifier frames_recommender)

section \<open>Properties of the Candidate Retriever\<close>

lemma store_op_healthy:
  "healthy E \<Longrightarrow>
   store_op E f w = (Inr (fst (f (db w))), w\<lparr>db := snd (f (db w)), ops := Suc (ops w)\<rparr>)"
  by (simp add: healthy_def store_op_def split: prod.split)

lemma getDb_healthy: "healthy E \<Longrightarrow> getDb E w = (Inr (), w\<lparr>ops := Suc (ops w)\<rparr>)"
  by (simp add: getDb_def store_op_healthy)

lemma agent_log_healthy: "healthy E \<Longrightarrow> \<exists>w'. agent_log E a qid msg dat w = (Inr (), w')"
  by (simp add: agent_log_def bnd_def getDb_healthy now_def store_op_healthy)

lemma chooseMatchStage_healthy:
  assumes "healthy E"
  shows "\<exists>w'. chooseMatchStage E qid reqs w = (Inr (scoutMatchStage E reqs), w')"
proof (cases "scoutMatchStage E reqs")
  case None
  then show ?thesis
    by (auto simp: chooseMatchStage_def scoutMatchStage_def ret_def Let_def split: option.splits)
next
  case (Some flt)
  then obtain rc where rc: "renownConstraint reqs = Some rc"
    and f: "renownFilter (toLowerCase E (c_value rc)) = Some flt"
    by (auto simp: scoutMatchStage_def split: option.splits)
  obtain w' where "agent_log E Scout qid
      ((str ''Applying renown filter: '') @ toLowerCase E (c_value rc)) None w = (Inr (), w')"
    using agent_log_healthy [OF assms] by blast
  then show ?thesis
    using rc f Some by (simp add: chooseMatchStage_def Let_def bnd_def ret_def)
qed

lemma vectorSearch_falls_through:
  assumes h: "healthy E"
    and vs: "(\<exists>e. aggregate E (scoutMatchStage E reqs) v (experts (db w)) = Inl e) \<or>
             aggregate E (scoutMatchStage E reqs) v (experts (db w)) = Inr []"
  shows "\<exists>w'. try_catch (vectorSearch E qid reqs v) (\<lambda>error. ret None) w = (Inr None, w')"
proof -
  obtain w1 where c: "chooseMatchStage E qid reqs w = (Inr (scoutMatchStage E reqs), w1)"
    using chooseMatchStage_healthy [OF h] by blast
  from framesD [OF frames_chooseMatchStage c] have "experts (db w1) = experts (db w)"
    by (simp add: stage_frame_def)
  with vs have vs1: "(\<exists>e. aggregate E (scoutMatchStage E reqs) v (experts (db w1)) = Inl e) \<or>
             aggregate E (scoutMatchStage E reqs) v (experts (db w1)) = Inr []"
    by simp
  have st: "store_try E (\<lambda>d. aggregate E (scoutMatchStage E reqs) v (experts d)) w1 =
      (aggregate E (scoutMatchStage E reqs) v (experts (db w1)), w1\<lparr>ops := Suc (ops w1)\<rparr>)"
    using h by (simp add: store_try_def healthy_def)
  from vs1 show ?thesis
  proof
    assume "\<exists>e. aggregate E (scoutMatchStage E reqs) v (experts (db w1)) = Inl e"
    then obtain e where "aggregate E (scoutMatchStage E reqs) v (experts (db w1)) = Inl e" ..
    then show ?thesis
      using c st by (simp add: vectorSearch_def bnd_def try_catch_def ret_def)
  next
    assume "aggregate E (scoutMatchStage E reqs) v (experts (db w1)) = Inr []"
    then show ?thesis
      using c st by (simp add: vectorSearch_def bnd_def try_catch_def ret_def)
  qed
qed

lemma textSearch_healthy:
  assumes "healthy E" and "textQuery E reqs = Inr query"
  shows "\<exists>w'. textSearch E qid reqs w = (Inr (take 10 (filter query (experts (db w)))), w')"
proof -
  obtain w' where "agent_log E Scout qid
      ((str ''Found '') @ show_nat (length (take 10 (filter query (experts (db w))))) @
       (str '' candidates via text search'')) None
      (w\<lparr>db := db w, ops := Suc (ops w)\<rparr>) = (Inr (), w')"
    using agent_log_healthy [OF assms(1)] by blast
  then show ?thesis
    using assms
    by (simp add: textSearch_def bnd_def lift_def store_op_healthy ret_def)
qed

lemma compile_all_Inr:
  "compile_all E ss = Inr rs \<Longrightarrow> map (regexp_i E) ss = map Inr rs"
  by (induction ss arbitrary: rs) (auto simp: sbind_def split: sum.splits)

lemma skills_name_in_iff:
  assumes "compile_all E ss = Inr rs"
  shows "skills_name_in rs e \<longleftrightarrow>
         (\<exists>sk \<in> set (e_skills e). \<exists>s \<in> set ss. \<exists>rx. regexp_i E s = Inr rx \<and> rx (sk_name sk))"
proof -
  from compile_all_Inr [OF assms] have m: "map (regexp_i E) ss = map Inr rs" .
  have "\<And>rx. rx \<in> set rs \<longleftrightarrow> (\<exists>s \<in> set ss. regexp_i E s = Inr rx)"
  proof -
    fix rx
    have "rx \<in> set rs \<longleftrightarrow> Inr rx \<in> set (map Inr rs :: (error + (jstring \<Rightarrow> bool)) list)"
      by auto
    also have "\<dots> \<longleftrightarrow> Inr rx \<in> set (map (regexp_i E) ss)" using m by simp
    also have "\<dots> \<longleftrightarrow> (\<exists>s \<in> set ss. regexp_i E s = Inr rx)" by (force simp: image_iff)
    finally show "rx \<in> set rs \<longleftrightarrow> (\<exists>s \<in> set ss. regexp_i E s = Inr rx)" .
  qed
  then have mem: "\<forall>rx. rx \<in> set rs \<longleftrightarrow> (\<exists>s \<in> set ss. regexp_i E s = Inr rx)"
    by blast
  show ?thesis
    unfolding skills_name_in_def list_ex_iff Bex_def
    by (simp add: mem) blast
qed

lemma scoutQueryVector_healthy:
  assumes "healthy E"
  shows "\<exists>v w'. scoutQueryVector E qid q w = (Inr v, w')"
proof -
  obtain w1 where l1:
    "agent_log E Scout qid (str ''Searching expert database...'') None w = (Inr (), w1)"
    using agent_log_healthy [OF assms] by blast
  have l2: "getDb E w1 = (Inr (), w1\<lparr>ops := Suc (ops w1)\<rparr>)"
    by (rule getDb_healthy [OF assms])
  obtain v w3 where l3: "generateQueryEmbedding E q (w1\<lparr>ops := Suc (ops w1)\<rparr>) = (Inr v, w3)"
    using generateEmbedding_returns unfolding generateQueryEmbedding_def by blast
  show ?thesis
    using l1 l2 l3 by (simp add: scoutQueryVector_def bnd_def)
qed

lemma scout_falls_back:
  assumes h: "healthy E"
    and qv: "scoutQueryVector E qid q w = (Inr v, w3)"
    and vs: "(\<exists>e. aggregate E (scoutMatchStage E reqs) v (experts (db w)) = Inl e) \<or>
             aggregate E (scoutMatchStage E reqs) v (experts (db w)) = Inr []"
    and tq: "textQuery E reqs = Inr query"
  shows "\<exists>w'. ProfileScoutAgent_execute E qid reqs q w =
           (Inr (take 10 (filter query (experts (db w)))), w')"
proof -
  from framesD [OF frames_scoutQueryVector qv] have e3: "experts (db w3) = experts (db w)"
    by (simp add: stage_frame_def)
  from vs e3 have "(\<exists>e. aggregate E (scoutMatchStage E reqs) v (experts (db w3)) = Inl e) \<or>
                 aggregate E (scoutMatchStage E reqs) v (experts (db w3)) = Inr []"
    by simp
  from vectorSearch_falls_through [OF h this] obtain w4 where
    l4: "try_catch (vectorSearch E qid reqs v) (\<lambda>error. ret None) w3 = (Inr None, w4)"
    by blast
  have "frames (try_catch (vectorSearch E qid reqs v) (\<lambda>error. ret None))"
    by (intro frames_try_catch frames_vectorSearch frames_ret)
  from framesD [OF this l4] have e4: "experts (db w4) = experts (db w3)"
    by (simp add: stage_frame_def)
  obtain w5 where l5: "textSearch E qid reqs w4 =
      (Inr (take 10 (filter query (experts (db w4)))), w5)"
    using textSearch_healthy [OF h tq] by blast
  have "ProfileScoutAgent_execute E qid reqs q w =
      (Inr (take 10 (filter query (experts (db w4)))), w5)"
    using qv l4 l5 by (simp add: ProfileScoutAgent_execute_def bnd_def)
  then show ?thesis using e3 e4 by auto
qed

lemma healthy_offline: "healthy offline_env"
  by (simp add: healthy_def offline_env_def)

lemma aggregate_offline:
  "aggregate offline_env ms v xs = Inl (Error (str ''vector search is not available''))"
  by (simp add: aggregate_def sbind_def offline_env_def)

lemma regexp_react: "regexp_i offline_env (str ''React'') = Inr (contains_ci (str ''React''))"
  by (simp add: offline_env_def literal_regexp_def plain_char_def str_def)

lemma textQuery_react:
  "textQuery offline_env (Some react_only) = Inr (skills_name_in [contains_ci (str ''React'')])"
  by (simp add: textQuery_def react_only_def sbind_def regexp_react)

lemma contains_react:
  "contains_ci (str ''React'') (str ''React Engineer'')" "contains_ci (str ''React'') (str ''Loves React'')"
  "\<not> contains_ci (str ''React'') (str ''Python'')" "contains_ci (str ''React'') (str ''React'')"
  by (simp_all add: contains_ci_def toLowerCase_def lower_unit_def is_ascii_def str_def)

text \<open>
  Claim C3, as stated, fails: the fallback query is \<^verbatim>\<open>{'skills.name': {$in: ...}}\<close>, so the
  expressions are run against the skill names only. A candidate whose title and bio
  match the expression but whose skill names do not is not returned.
\<close>

theorem scout_title_bio_counterexample:
  "regexp_i offline_env (str ''React'') = Inr (contains_ci (str ''React'')) \<and>
   contains_ci (str ''React'') (title python_expert) \<and>
   contains_ci (str ''React'') (bio python_expert) \<and>
   experts (db (world_with [python_expert])) = [python_expert] \<and>
   fst (ProfileScoutAgent_execute offline_env (str ''query_1'') (Some react_only)
          (str ''React developer'') (world_with [python_expert])) = Inr []"
proof -
  obtain v w3 where qv: "scoutQueryVector offline_env (str ''query_1'') (str ''React developer'')
      (world_with [python_expert]) = (Inr v, w3)"
    using scoutQueryVector_healthy [OF healthy_offline] by blast
  have vs: "(\<exists>e. aggregate offline_env (scoutMatchStage offline_env (Some react_only)) v
                      (experts (db (world_with [python_expert]))) = Inl e) \<or>
            aggregate offline_env (scoutMatchStage offline_env (Some react_only)) v
                      (experts (db (world_with [python_expert]))) = Inr []"
    by (simp add: aggregate_offline)
  have xs: "experts (db (world_with [python_expert])) = [python_expert]"
    by (simp add: world_with_def)
  have flt: "take 10 (filter (skills_name_in [contains_ci (str ''React'')])
                       (experts (db (world_with [python_expert])))) = []"
    unfolding xs by (simp add: skills_name_in_def python_expert_def contains_react)
  from scout_falls_back [OF healthy_offline qv vs textQuery_react]
  have "fst (ProfileScoutAgent_execute offline_env (str ''query_1'') (Some react_only)
          (str ''React developer'') (world_with [python_expert])) = Inr []"
    using flt by auto
  then show ?thesis
    using regexp_react xs by (simp add: python_expert_def contains_react)
qed

text \<open>
  Claim C3, amended. \<^verbatim>\<open>ProfileScoutAgent.execute\<close> logs, obtains the embedding \<open>v\<close> of the
  raw query and runs the similarity search with it. With a store that rejects nothing,
  when that similarity search (the aggregation with the vector \<open>v\<close> of this run over the
  expert collection) raises an error or returns zero results, the agent falls back to
  keyword matching: it compiles each requirement skill name as a case-insensitive
  regular expression and, when all of them compile, returns the first 10 candidates of
  which some skill name matches one of the expressions; title and bio are not searched.
  When the requirement set is absent or has no skills, it returns the first 10
  candidates.
\<close>

theorem scout_text_fallback:
  assumes "healthy E"
    and "scoutQueryVector E qid q w = (Inr v, w1)"
    and "(\<exists>e. aggregate E (scoutMatchStage E reqs) v (experts (db w)) = Inl e) \<or>
         aggregate E (scoutMatchStage E reqs) v (experts (db w)) = Inr []"
  shows "((case reqs of None \<Rightarrow> True | Some r \<Rightarrow> skills r = []) \<longrightarrow>
            (\<exists>w'. ProfileScoutAgent_execute E qid reqs q w =
                    (Inr (take 10 (experts (db w))), w'))) \<and>
         (\<forall>r regexes.
            reqs = Some r \<and> skills r \<noteq> [] \<and>
            compile_all E (map rs_name (skills r)) = Inr regexes \<longrightarrow>
            (\<exists>w'. ProfileScoutAgent_execute E qid reqs q w =
                    (Inr (take 10 (filter (skills_name_in regexes) (experts (db w)))), w')) \<and>
            (\<forall>e. skills_name_in regexes e \<longleftrightarrow>
                   (\<exists>sk \<in> set (e_skills e). \<exists>s \<in> set (skills r). \<exists>rx.
                      regexp_i E (rs_name s) = Inr rx \<and> rx (sk_name sk))))"
proof (intro conjI allI impI)
  assume "case reqs of None \<Rightarrow> True | Some r \<Rightarrow> skills r = []"
  then have "textQuery E reqs = Inr (\<lambda>_. True)"
    by (auto simp: textQuery_def split: option.splits)
  from scout_falls_back [OF assms this]
  show "\<exists>w'. ProfileScoutAgent_execute E qid reqs q w = (Inr (take 10 (experts (db w))), w')"
    by simp
next
  fix r regexes
  assume a: "reqs = Some r \<and> skills r \<noteq> [] \<and>
            compile_all E (map rs_name (skills r)) = Inr regexes"
  then have "textQuery E reqs = Inr (skills_name_in regexes)"
    by (simp add: textQuery_def sbind_def)
  from scout_falls_back [OF assms this]
  show "\<exists>w'. ProfileScoutAgent_execute E qid reqs q w =
                    (Inr (take 10 (filter (skills_name_in regexes) (experts (db w)))), w')" .
  fix e
  from a have c: "compile_all E (map rs_name (skills r)) = Inr regexes" by simp
  show "skills_name_in regexes e \<longleftrightarrow>
                   (\<exists>sk \<in> set (e_skills e). \<exists>s \<in> set (skills r). \<exists>rx.
                      regexp_i E (rs_name s) = Inr rx \<and> rx (sk_name sk))"
    using skills_name_in_iff [OF c, of e] by auto
qed

theorem scout_text_fallback_witness:
  "healthy offline_env \<and>
   (\<exists>v w1. scoutQueryVector offline_env (str ''query_1'') (str ''React developer'')
              (world_with [python_expert, react_expert]) = (Inr v, w1) \<and>
            aggregate offline_env (scoutMatchStage offline_env (Some react_only)) v
              (experts (db (world_with [python_expert, react_expert]))) =
              Inl (Error (str ''vector search is not available''))) \<and>
   (\<exists>v w1. scoutQueryVector offline_env (str ''query_1'') (str ''anyone'')
              (world_with [python_expert, react_expert]) = (Inr v, w1) \<and>
            aggregate offline_env (scoutMatchStage offline_env None) v
              (experts (db (world_with [python_expert, react_expert]))) =
              Inl (Error (str ''vector search is not available''))) \<and>
   compile_all offline_env (map rs_name (skills react_only)) = Inr [contains_ci (str ''React'')] \<and>
   (\<exists>w'. ProfileScoutAgent_execute offline_env (str ''query_1'') (Some react_only)
           (str ''React developer'') (world_with [python_expert, react_expert]) =
           (Inr [react_expert], w')) \<and>
   (\<exists>w'. ProfileScoutAgent_execute offline_env (str ''query_1'') None (str ''anyone'')
           (world_with [python_expert, react_expert]) = (Inr [python_expert, react_expert], w'))"
proof -
  let ?w = "world_with [python_expert, react_expert]"
  obtain v w1 where qv: "scoutQueryVector offline_env (str ''query_1'') (str ''React developer'')
      ?w = (Inr v, w1)"
    using scoutQueryVector_healthy [OF healthy_offline] by blast
  obtain v' w1' where qv': "scoutQueryVector offline_env (str ''query_1'') (str ''anyone'')
      ?w = (Inr v', w1')"
    using scoutQueryVector_healthy [OF healthy_offline] by blast
  have vs: "\<And>reqs v. (\<exists>e. aggregate offline_env (scoutMatchStage offline_env reqs) v
                             (experts (db ?w)) = Inl e) \<or>
                aggregate offline_env (scoutMatchStage offline_env reqs) v (experts (db ?w)) = Inr []"
    by (simp add: aggregate_offline)
  have c: "compile_all offline_env (map rs_name (skills react_only)) = Inr [contains_ci (str ''React'')]"
    by (simp add: react_only_def sbind_def regexp_react)
  have ne: "skills react_only \<noteq> []" by (simp add: react_only_def)
  have xs: "experts (db ?w) = [python_expert, react_expert]"
    by (simp add: world_with_def)
  have flt: "take 10 (filter (skills_name_in [contains_ci (str ''React'')]) (experts (db ?w))) =
      [react_expert]"
    unfolding xs
    by (simp add: skills_name_in_def python_expert_def react_expert_def contains_react)
  have a: "\<exists>w'. ProfileScoutAgent_execute offline_env (str ''query_1'') (Some react_only)
           (str ''React developer'') ?w = (Inr [react_expert], w')"
    using scout_text_fallback [where reqs = "Some react_only", OF healthy_offline qv vs] c ne flt
    by auto
  have b: "\<exists>w'. ProfileScoutAgent_execute offline_env (str ''query_1'') None (str ''anyone'') ?w =
      (Inr [python_expert, react_expert], w')"
    using scout_text_fallback [where reqs = None, OF healthy_offline qv' vs] xs
    by simp
  have q1: "\<exists>v w1. scoutQueryVector offline_env (str ''query_1'') (str ''React developer'')
              ?w = (Inr v, w1) \<and>
            aggregate offline_env (scoutMatchStage offline_env (Some react_only)) v
              (experts (db ?w)) = Inl (Error (str ''vector search is not available''))"
    using qv aggregate_offline by blast
  have q2: "\<exists>v w1. scoutQueryVector offline_env (str ''query_1'') (str ''anyone'')
              ?w = (Inr v, w1) \<and>
            aggregate offline_env (scoutMatchStage offline_env None) v
              (experts (db ?w)) = Inl (Error (str ''vector search is not available''))"
    using qv' aggregate_offline by blast
  from healthy_offline q1 q2 c a b show ?thesis by blast
qed

section \<open>Properties of the orchestrator\<close>

lemma processQuery_hit:
  assumes "store_fault E (ops w) = None" and "store_fault E (Suc (ops w)) = None"
    and "find (\<lambda>c. queryHash c = computeQueryHash E q \<and> expiresAt c > clock w)
           (cache_search_results (db w)) = Some c"
  shows "processQuery E orch q w =
     (Inr \<lparr>fr_queryId = fr_queryId (r_result c), matches = matches (r_result c),
           conversation = cacheHitMessage (clock w) # conversation (r_result c)\<rparr>,
      w\<lparr>ops := Suc (Suc (ops w))\<rparr>)"
  using assms
  by (simp add: processQuery_def Let_def bnd_def try_catch_def getDb_def store_op_def
      cacheLookup_def now_def ret_def)

lemma processQuery_miss:
  assumes "store_fault E (ops w) = None" and "store_fault E (Suc (ops w)) = None"
    and "find (\<lambda>c. queryHash c = computeQueryHash E q \<and> expiresAt c > clock w)
           (cache_search_results (db w)) = None"
  shows "processQuery E orch q w =
     try_catch (missPath E orch q (computeQueryHash E q)) (markFailed E orch)
       (w\<lparr>ops := Suc (Suc (ops w))\<rparr>)"
  using assms
  by (simp add: processQuery_def Let_def bnd_def try_catch_def getDb_def store_op_def
      cacheLookup_def now_def ret_def)

lemma createRecords_ok:
  assumes "store_fault E (ops w) = None" and "store_fault E (Suc (ops w)) = None"
  shows "createRecords E orch q w =
     (Inr (), w\<lparr>db := (db w)\<lparr>queries := queries (db w) @ [newQueryRecord orch q (clock w)],
                             agent_tasks := agent_tasks (db w) @ [newTaskRecord orch (clock w)]\<rparr>,
              ops := Suc (Suc (ops w))\<rparr>)"
  using assms
  by (simp add: createRecords_def bnd_def now_def store_op_def)

lemma markFailed_ok:
  assumes "store_fault E (ops w) = None"
  shows "markFailed E orch e w =
     (Inl e, w\<lparr>db := (db w)\<lparr>queries :=
                  update_first (\<lambda>x. queryId x = o_queryId orch) (\<lambda>x. x\<lparr>q_status := Failed\<rparr>)
                    (queries (db w))\<rparr>,
              ops := Suc (ops w)\<rparr>)"
  using assms by (simp add: markFailed_def bnd_def store_op_def throw_def)


lemma find_update_first_failed:
  assumes "qid \<in> set (map queryId xs)"
  shows "\<exists>r. find (\<lambda>x. queryId x = qid)
               (update_first (\<lambda>x. queryId x = qid) (\<lambda>x. x\<lparr>q_status := Failed\<rparr>) xs) = Some r \<and>
             q_status r = Failed \<and>
             (\<exists>r0. find (\<lambda>x. queryId x = qid) xs = Some r0 \<and> r = r0\<lparr>q_status := Failed\<rparr>)"
  using assms by (induction xs) auto

lemma find_append_fresh:
  "qid \<notin> set (map queryId xs) \<Longrightarrow> queryId y = qid \<Longrightarrow>
   find (\<lambda>x. queryId x = qid) (xs @ [y]) = Some y"
  by (induction xs) auto

lemma find_query_key:
  assumes "map query_key xs = map query_key ys"
    and "find (\<lambda>x. queryId x = qid) xs = Some a"
  shows "\<exists>b. find (\<lambda>x. queryId x = qid) ys = Some b \<and> query_key b = query_key a"
  using assms
proof (induction xs arbitrary: ys)
  case Nil
  then show ?case by simp
next
  case (Cons x xs)
  then obtain y ys' where ys: "ys = y # ys'" by (cases ys) auto
  with Cons.prems have k: "query_key x = query_key y" and rest: "map query_key xs = map query_key ys'"
    by simp_all
  from k have same: "queryId x = queryId y" by (simp add: query_key_def)
  show ?case
  proof (cases "queryId x = qid")
    case True
    with Cons.prems(2) have "a = x" by simp
    with True same k ys show ?thesis by simp
  next
    case False
    with Cons.prems(2) have "find (\<lambda>x. queryId x = qid) xs = Some a" by simp
    from Cons.IH [OF rest this] False same ys show ?thesis by simp
  qed
qed

lemma missPath_stage_failure:
  assumes "store_fault E (ops w) = None" and "store_fault E (Suc (ops w)) = None"
    and "runStages E orch q
           (w\<lparr>db := (db w)\<lparr>queries := queries (db w) @ [newQueryRecord orch q (clock w)],
                             agent_tasks := agent_tasks (db w) @ [newTaskRecord orch (clock w)]\<rparr>,
              ops := Suc (Suc (ops w))\<rparr>) = (Inl e, w2)"
  shows "missPath E orch q h w = (Inl e, w2)"
  using assms by (simp add: missPath_def bnd_def createRecords_ok)

lemma pipeline_start_eq:
  "pipeline_start orch q w =
     (w\<lparr>ops := Suc (Suc (ops w))\<rparr>)
       \<lparr>db := (db (w\<lparr>ops := Suc (Suc (ops w))\<rparr>))
                \<lparr>queries := queries (db (w\<lparr>ops := Suc (Suc (ops w))\<rparr>)) @
                              [newQueryRecord orch q (clock (w\<lparr>ops := Suc (Suc (ops w))\<rparr>))],
                 agent_tasks := agent_tasks (db (w\<lparr>ops := Suc (Suc (ops w))\<rparr>)) @
                              [newTaskRecord orch (clock (w\<lparr>ops := Suc (Suc (ops w))\<rparr>))]\<rparr>,
        ops := Suc (Suc (ops (w\<lparr>ops := Suc (Suc (ops w))\<rparr>)))\<rparr>"
  by (simp add: pipeline_start_def)

lemma stage_outage:
  "runStages outage_env alpha_orch (str ''React developer'')
     (pipeline_start alpha_orch (str ''React developer'') empty_world) =
   (Inl (StoreError (str ''4'')),
    (pipeline_start alpha_orch (str ''React developer'') empty_world)\<lparr>ops := 5\<rparr>)"
  by (simp add: runStages_def QueryAnalystAgent_execute_def agent_log_def getDb_def
      store_op_def bnd_def pipeline_start_def empty_world_def outage_env_def
      show_nat.simps str_def)

text \<open>
  Claim C2, as stated, fails. The \<^verbatim>\<open>catch\<close> block marks the query record with an
  \<^verbatim>\<open>updateOne\<close> of its own, which can itself reject. With a store that accepts the first
  four operations (connection, cache lookup, the two inserts) and rejects every later one,
  the Analyst's first log raises the error of operation 4; the update of the \<^verbatim>\<open>catch\<close>
  block is operation 5 and rejects too, so the caller gets the error of operation 5, not
  the exception of the stage, and the query record still has status \<open>processing\<close>.
\<close>

theorem stage_failure_outage_counterexample:
  "(\<exists>w2. runStages outage_env alpha_orch (str ''React developer'')
           (pipeline_start alpha_orch (str ''React developer'') empty_world) =
           (Inl (StoreError (str ''4'')), w2)) \<and>
   (\<exists>w3. processQuery outage_env alpha_orch (str ''React developer'') empty_world =
           (Inl (StoreError (str ''5'')), w3) \<and>
         map queryId (queries (db w3)) = [o_queryId alpha_orch] \<and>
         map q_status (queries (db w3)) = [Processing]) \<and>
   StoreError (str ''5'') \<noteq> StoreError (str ''4'')"
proof -
  let ?q = "str ''React developer''"
  have f: "store_fault outage_env (ops empty_world) = None"
    "store_fault outage_env (Suc (ops empty_world)) = None"
    "store_fault outage_env (ops (empty_world\<lparr>ops := Suc (Suc (ops empty_world))\<rparr>)) = None"
    "store_fault outage_env (Suc (ops (empty_world\<lparr>ops := Suc (Suc (ops empty_world))\<rparr>))) = None"
    by (simp_all add: outage_env_def empty_world_def)
  have miss: "find (\<lambda>c. queryHash c = computeQueryHash outage_env ?q \<and>
                         expiresAt c > clock empty_world)
                (cache_search_results (db empty_world)) = None"
    by (simp add: empty_world_def empty_db_def)
  have p: "processQuery outage_env alpha_orch ?q empty_world =
      try_catch (missPath outage_env alpha_orch ?q (computeQueryHash outage_env ?q))
        (markFailed outage_env alpha_orch) (empty_world\<lparr>ops := Suc (Suc (ops empty_world))\<rparr>)"
    using f(1,2) miss by (rule processQuery_miss)
  have m: "missPath outage_env alpha_orch ?q (computeQueryHash outage_env ?q)
             (empty_world\<lparr>ops := Suc (Suc (ops empty_world))\<rparr>) =
           (Inl (StoreError (str ''4'')), (pipeline_start alpha_orch ?q empty_world)\<lparr>ops := 5\<rparr>)"
  proof (rule missPath_stage_failure [OF f(3,4)])
    show "runStages outage_env alpha_orch ?q
       ((empty_world\<lparr>ops := Suc (Suc (ops empty_world))\<rparr>)
          \<lparr>db := (db (empty_world\<lparr>ops := Suc (Suc (ops empty_world))\<rparr>))
             \<lparr>queries := queries (db (empty_world\<lparr>ops := Suc (Suc (ops empty_world))\<rparr>)) @
                [newQueryRecord alpha_orch ?q
                   (clock (empty_world\<lparr>ops := Suc (Suc (ops empty_world))\<rparr>))],
              agent_tasks := agent_tasks (db (empty_world\<lparr>ops := Suc (Suc (ops empty_world))\<rparr>)) @
                [newTaskRecord alpha_orch
                   (clock (empty_world\<lparr>ops := Suc (Suc (ops empty_world))\<rparr>))]\<rparr>,
           ops := Suc (Suc (ops (empty_world\<lparr>ops := Suc (Suc (ops empty_world))\<rparr>)))\<rparr>) =
       (Inl (StoreError (str ''4'')), (pipeline_start alpha_orch ?q empty_world)\<lparr>ops := 5\<rparr>)"
      using stage_outage unfolding pipeline_start_eq .
  qed
  have h: "markFailed outage_env alpha_orch (StoreError (str ''4''))
             ((pipeline_start alpha_orch ?q empty_world)\<lparr>ops := 5\<rparr>) =
           (Inl (StoreError (str ''5'')), (pipeline_start alpha_orch ?q empty_world)\<lparr>ops := 6\<rparr>)"
    by (simp add: markFailed_def bnd_def store_op_def outage_env_def show_nat.simps str_def)
  have run: "processQuery outage_env alpha_orch ?q empty_world =
      (Inl (StoreError (str ''5'')), (pipeline_start alpha_orch ?q empty_world)\<lparr>ops := 6\<rparr>)"
    using p m h by (simp add: try_catch_def)
  have ids: "map queryId (queries (db ((pipeline_start alpha_orch ?q empty_world)\<lparr>ops := 6\<rparr>))) =
      [o_queryId alpha_orch]"
    and st: "map q_status (queries (db ((pipeline_start alpha_orch ?q empty_world)\<lparr>ops := 6\<rparr>))) =
      [Processing]"
    by (simp_all add: pipeline_start_def empty_world_def empty_db_def newQueryRecord_def)
  have ne: "StoreError (str ''5'') \<noteq> StoreError (str ''4'')"
    by simp
  have a: "\<exists>w2. runStages outage_env alpha_orch ?q (pipeline_start alpha_orch ?q empty_world) =
           (Inl (StoreError (str ''4'')), w2)"
    using stage_outage by (intro exI)
  have b: "\<exists>w3. processQuery outage_env alpha_orch ?q empty_world =
           (Inl (StoreError (str ''5'')), w3) \<and>
         map queryId (queries (db w3)) = [o_queryId alpha_orch] \<and>
         map q_status (queries (db w3)) = [Processing]"
    using run ids st
    by (intro exI [of _ "(pipeline_start alpha_orch ?q empty_world)\<lparr>ops := 6\<rparr>"] conjI)
  from a b ne show ?thesis by (intro conjI)
qed

text \<open>
  Claim C2, amended. After a cache miss, with the query record and the task record
  inserted, let the stages (Analyst, Scout, Verifier, Recommender in sequence) raise an
  exception. The task records are then those before the call followed by the new one,
  still \<open>in_progress\<close>, and the result cache is as it was. When the store accepts the
  update of the \<^verbatim>\<open>catch\<close> block, \<^verbatim>\<open>processQuery\<close> re-raises the exception of the stage and
  the query record found under the query identifier has status \<open>failed\<close> (and is the
  record of this invocation when the identifier is fresh). When the store rejects that
  update, \<^verbatim>\<open>processQuery\<close> raises the error of the rejected update instead, and the query
  records are as the stages left them: the record of this invocation (when the identifier
  is fresh) still has status \<open>processing\<close>.
\<close>

theorem stage_failure_marks_failed:
  assumes f0: "store_fault E (ops w) = None" and f1: "store_fault E (ops w + 1) = None"
    and f2: "store_fault E (ops w + 2) = None" and f3: "store_fault E (ops w + 3) = None"
    and miss: "find (\<lambda>c. queryHash c = computeQueryHash E q \<and> expiresAt c > clock w)
                 (cache_search_results (db w)) = None"
    and stage: "runStages E orch q (pipeline_start orch q w) = (Inl e, w2)"
  shows "(store_fault E (ops w2) = None \<longrightarrow>
           (\<exists>w3. processQuery E orch q w = (Inl e, w3) \<and>
             (\<exists>r. find (\<lambda>x. queryId x = o_queryId orch) (queries (db w3)) = Some r \<and>
                  q_status r = Failed \<and>
                  (o_queryId orch \<notin> set (map queryId (queries (db w))) \<longrightarrow> rawQuery r = q)) \<and>
             agent_tasks (db w3) = agent_tasks (db w) @ [newTaskRecord orch (clock w)] \<and>
             t_status (newTaskRecord orch (clock w)) = In_progress \<and>
             cache_search_results (db w3) = cache_search_results (db w))) \<and>
         (\<forall>e'. store_fault E (ops w2) = Some e' \<longrightarrow>
           (\<exists>w3. processQuery E orch q w = (Inl e', w3) \<and>
             queries (db w3) = queries (db w2) \<and>
             (\<exists>r. find (\<lambda>x. queryId x = o_queryId orch) (queries (db w3)) = Some r \<and>
                  (o_queryId orch \<notin> set (map queryId (queries (db w))) \<longrightarrow>
                     q_status r = Processing \<and> rawQuery r = q)) \<and>
             agent_tasks (db w3) = agent_tasks (db w) @ [newTaskRecord orch (clock w)] \<and>
             t_status (newTaskRecord orch (clock w)) = In_progress \<and>
             cache_search_results (db w3) = cache_search_results (db w)))"
proof -
  let ?w0 = "w\<lparr>ops := Suc (Suc (ops w))\<rparr>"
  let ?qid = "o_queryId orch"
  let ?start = "queries (db w) @ [newQueryRecord orch q (clock w)]"
  have p: "processQuery E orch q w =
      try_catch (missPath E orch q (computeQueryHash E q)) (markFailed E orch) ?w0"
    using f0 f1 miss by (simp add: processQuery_miss)
  have m: "missPath E orch q (computeQueryHash E q) ?w0 = (Inl e, w2)"
  proof (rule missPath_stage_failure)
    show "store_fault E (ops ?w0) = None" using f2 by (simp add: numeral_2_eq_2)
    show "store_fault E (Suc (ops ?w0)) = None" using f3 by (simp add: numeral_3_eq_3)
    show "runStages E orch q
       (?w0\<lparr>db := (db ?w0)\<lparr>queries := queries (db ?w0) @ [newQueryRecord orch q (clock ?w0)],
                agent_tasks := agent_tasks (db ?w0) @ [newTaskRecord orch (clock ?w0)]\<rparr>,
             ops := Suc (Suc (ops ?w0))\<rparr>) = (Inl e, w2)"
      using stage unfolding pipeline_start_eq .
  qed
  from framesD [OF frames_runStages stage]
  have fr: "stage_frame (db (pipeline_start orch q w)) (db w2)" by simp
  then have tasks: "agent_tasks (db w2) = agent_tasks (db w) @ [newTaskRecord orch (clock w)]"
    and cache: "cache_search_results (db w2) = cache_search_results (db w)"
    and keys: "map query_key (queries (db w2)) = map query_key ?start"
    by (simp_all add: stage_frame_def pipeline_start_def)
  have "map queryId (queries (db w2)) = map (fst \<circ> query_key) (queries (db w2))"
    by (simp add: query_key_def comp_def)
  also have "\<dots> = map fst (map query_key ?start)"
    using keys by (metis map_map)
  also have "\<dots> = map queryId ?start"
    by (simp add: query_key_def comp_def)
  finally have ids: "map queryId (queries (db w2)) = map queryId ?start" .
  then have mem: "?qid \<in> set (map queryId (queries (db w2)))"
    by (simp add: newQueryRecord_def)
  have inprog: "t_status (newTaskRecord orch (clock w)) = In_progress"
    by (simp add: newTaskRecord_def)
  have fresh0: "\<And>r0. find (\<lambda>x. queryId x = ?qid) (queries (db w2)) = Some r0 \<Longrightarrow>
      ?qid \<notin> set (map queryId (queries (db w))) \<Longrightarrow>
      query_key r0 = query_key (newQueryRecord orch q (clock w))"
  proof -
    fix r0
    assume r0: "find (\<lambda>x. queryId x = ?qid) (queries (db w2)) = Some r0"
      and "?qid \<notin> set (map queryId (queries (db w)))"
    then have "find (\<lambda>x. queryId x = ?qid) ?start = Some (newQueryRecord orch q (clock w))"
      by (intro find_append_fresh) (simp_all add: newQueryRecord_def)
    from find_query_key [OF keys [symmetric] this] r0
    show "query_key r0 = query_key (newQueryRecord orch q (clock w))" by simp
  qed
  show ?thesis
  proof (intro conjI allI impI)
    assume handler: "store_fault E (ops w2) = None"
    let ?w3 = "w2\<lparr>db := (db w2)\<lparr>queries :=
                  update_first (\<lambda>x. queryId x = ?qid) (\<lambda>x. x\<lparr>q_status := Failed\<rparr>)
                    (queries (db w2))\<rparr>,
              ops := Suc (ops w2)\<rparr>"
    have run: "processQuery E orch q w = (Inl e, ?w3)"
      using p m markFailed_ok [OF handler, of orch e] by (simp add: try_catch_def)
    from find_update_first_failed [OF mem] obtain r r0 where
      r: "find (\<lambda>x. queryId x = ?qid) (queries (db ?w3)) = Some r" "q_status r = Failed"
      and r0: "find (\<lambda>x. queryId x = ?qid) (queries (db w2)) = Some r0"
        "r = r0\<lparr>q_status := Failed\<rparr>"
      by auto
    have fresh: "?qid \<notin> set (map queryId (queries (db w))) \<longrightarrow> rawQuery r = q"
      using fresh0 [OF r0(1)] r0(2) by (auto simp: query_key_def newQueryRecord_def)
    have "agent_tasks (db ?w3) = agent_tasks (db w) @ [newTaskRecord orch (clock w)]"
      using tasks by simp
    moreover have "cache_search_results (db ?w3) = cache_search_results (db w)"
      using cache by simp
    ultimately show "\<exists>w3. processQuery E orch q w = (Inl e, w3) \<and>
             (\<exists>r. find (\<lambda>x. queryId x = o_queryId orch) (queries (db w3)) = Some r \<and>
                  q_status r = Failed \<and>
                  (o_queryId orch \<notin> set (map queryId (queries (db w))) \<longrightarrow> rawQuery r = q)) \<and>
             agent_tasks (db w3) = agent_tasks (db w) @ [newTaskRecord orch (clock w)] \<and>
             t_status (newTaskRecord orch (clock w)) = In_progress \<and>
             cache_search_results (db w3) = cache_search_results (db w)"
      using run r fresh inprog by blast
  next
    fix e'
    assume rejected: "store_fault E (ops w2) = Some e'"
    let ?w3 = "w2\<lparr>ops := Suc (ops w2)\<rparr>"
    have "markFailed E orch e w2 = (Inl e', ?w3)"
      using rejected by (simp add: markFailed_def bnd_def store_op_def)
    then have run: "processQuery E orch q w = (Inl e', ?w3)"
      using p m by (simp add: try_catch_def)
    from mem obtain r0 where r0: "find (\<lambda>x. queryId x = ?qid) (queries (db w2)) = Some r0"
      by (cases "find (\<lambda>x. queryId x = ?qid) (queries (db w2))")
         (auto simp: find_None_iff)
    have fresh: "?qid \<notin> set (map queryId (queries (db w))) \<longrightarrow>
        q_status r0 = Processing \<and> rawQuery r0 = q"
      using fresh0 [OF r0] by (auto simp: query_key_def newQueryRecord_def)
    have "queries (db ?w3) = queries (db w2)" by simp
    moreover have "find (\<lambda>x. queryId x = ?qid) (queries (db ?w3)) = Some r0"
      using r0 by simp
    moreover have "agent_tasks (db ?w3) = agent_tasks (db w) @ [newTaskRecord orch (clock w)]"
      using tasks by simp
    moreover have "cache_search_results (db ?w3) = cache_search_results (db w)"
      using cache by simp
    ultimately show "\<exists>w3. processQuery E orch q w = (Inl e', w3) \<and>
             queries (db w3) = queries (db w2) \<and>
             (\<exists>r. find (\<lambda>x. queryId x = o_queryId orch) (queries (db w3)) = Some r \<and>
                  (o_queryId orch \<notin> set (map queryId (queries (db w))) \<longrightarrow>
                     q_status r = Processing \<and> rawQuery r = q)) \<and>
             agent_tasks (db w3) = agent_tasks (db w) @ [newTaskRecord orch (clock w)] \<and>
             t_status (newTaskRecord orch (clock w)) = In_progress \<and>
             cache_search_results (db w3) = cache_search_results (db w)"
      using run fresh inprog by blast
  qed
qed

section \<open>Runs with a store that rejects nothing\<close>

lemma analyst_healthy:
  assumes "healthy E" and "parseQuery E q = Inr r"
  shows "\<exists>w'. QueryAnalystAgent_execute E qid q w = (Inr r, w')"
proof -
  obtain w1 where l1: "agent_log E Analyst qid (str ''Analyzing query requirements...'') None w = (Inr (), w1)"
    using agent_log_healthy [OF assms(1)] by blast
  obtain w2 where l2: "agent_log E Analyst qid
            ((str ''Extracted '') @ show_nat (length (skills r)) @ (str '' skills, '') @
             show_nat (length (constraints r)) @ (str '' constraints''))
            (Some r) w1 = (Inr (), w2)"
    using agent_log_healthy [OF assms(1)] by blast
  show ?thesis
    using l1 l2 assms(2) by (simp add: QueryAnalystAgent_execute_def bnd_def lift_def ret_def)
qed

lemma verifier_healthy:
  assumes "healthy E"
  shows "\<exists>w'. VerifierAgent_execute E qid cs w = (Inr (map verify_one cs), w')"
proof -
  obtain w1 where l1: "agent_log E Verifier qid
            ((str ''Verifying '') @ show_nat (length cs) @ (str '' candidates...'')) None w = (Inr (), w1)"
    using agent_log_healthy [OF assms] by blast
  obtain w2 where l2: "agent_log E Verifier qid
                ((str ''Verified '') @ show_nat (length (map verify_one cs)) @ (str '' experts, '') @
                 show_nat (length (filter is_available (map verify_one cs))) @ (str '' available''))
                None w1 = (Inr (), w2)"
    using agent_log_healthy [OF assms] by blast
  show ?thesis
    using l1 l2 by (simp add: VerifierAgent_execute_def bnd_def Let_def ret_def)
qed

lemma recommender_without_key:
  assumes "healthy E" and "fireworks_api_key E = None" and "cs \<noteq> []"
  shows "\<exists>w'. RecommenderAgent_execute E qid cs q reqs w =
           (Inl (Error (str ''FIREWORKS_API_KEY not set'')), w')"
proof -
  obtain w1 where l1: "agent_log E Recommender qid (str ''Ranking and explaining matches...'') None w =
      (Inr (), w1)"
    using agent_log_healthy [OF assms(1)] by blast
  obtain c rest where cs: "take 5 cs = c # rest"
    using assms(3) by (cases cs) auto
  have "rank_loop E q reqs (take 5 cs) [] = Inl (Error (str ''FIREWORKS_API_KEY not set''))"
    unfolding cs
    by (simp add: generateExplanation_def chat_without_key [OF assms(2)] sbind_def)
  then show ?thesis
    using l1 by (simp add: RecommenderAgent_execute_def bnd_def lift_def)
qed

lemma runStages_steps:
  assumes "QueryAnalystAgent_execute E (o_queryId orch) q w = (Inr r, wa)"
    and "ProfileScoutAgent_execute E (o_queryId orch) (Some r) q wa = (Inr cs, wb)"
    and "VerifierAgent_execute E (o_queryId orch) cs wb = (Inr vs, wc)"
    and "RecommenderAgent_execute E (o_queryId orch) vs q (Some r) wc = (res, wd)"
  shows "runStages E orch q w = (case res of Inl e \<Rightarrow> Inl e | Inr ms \<Rightarrow> Inr (r, ms), wd)"
  using assms by (simp add: runStages_def bnd_def ret_def split: sum.split)




section \<open>The result cache after a miss\<close>










text \<open>
  Claim C7. When the lookup finds a result cache entry for the query hash whose expiry
  is in the future, \<^verbatim>\<open>processQuery\<close> returns the cached identifier and matches, and the
  cached conversation with one orchestrator entry prepended. The world after the call
  is the world before it with two more store operations counted (\<^verbatim>\<open>getDb\<close> and the
  lookup): no record is created or modified, no stage has logged, and no random vector
  has been drawn; the result does not depend on any provider.
\<close>

theorem cache_hit_bypasses_pipeline:
  assumes "store_fault E (ops w) = None" and "store_fault E (ops w + 1) = None"
    and "find (\<lambda>c. queryHash c = computeQueryHash E q \<and> expiresAt c > clock w)
           (cache_search_results (db w)) = Some c"
  shows "processQuery E orch q w =
     (Inr \<lparr>fr_queryId = fr_queryId (r_result c), matches = matches (r_result c),
           conversation = cacheHitMessage (clock w) # conversation (r_result c)\<rparr>,
      w\<lparr>ops := ops w + 2\<rparr>)"
  using processQuery_hit [of E w q c orch] assms by simp

section \<open>The orchestrator at concrete inputs\<close>

lemma hash_react_lead: "computeQueryHash offline_env (str ''  React LEAD '') = (str ''react lead'')"
  by (simp add: computeQueryHash_def offline_env_def trim_def is_space_def toLowerCase_def
      lower_unit_def is_ascii_def str_def)

theorem cache_hit_bypasses_pipeline_witness:
  "processQuery offline_env beta_orch (str ''  React LEAD '') cached_world =
     (Inr \<lparr>fr_queryId = (str ''query_0''),
           matches = [\<lparr>em_expert = react_expert, matchScore = Fin 0.7,
                       reasoning = [(str ''Strong match on skills'')], matchedBy = Recommender\<rparr>],
           conversation =
             [cacheHitMessage 1000,
              \<lparr>m_agent = Analyst, m_message = (str ''Analyzing query requirements...''),
               m_data = None, m_timestamp = 500\<rparr>]\<rparr>,
      cached_world\<lparr>ops := 2\<rparr>)"
proof -
  have f: "store_fault offline_env (ops cached_world) = None"
    "store_fault offline_env (ops cached_world + 1) = None"
    by (simp_all add: offline_env_def)
  have c: "find (\<lambda>c. queryHash c = computeQueryHash offline_env (str ''  React LEAD '') \<and>
                     expiresAt c > clock cached_world)
             (cache_search_results (db cached_world)) = Some cached_entry"
    by (simp add: hash_react_lead cached_world_def cached_entry_def empty_world_def)
  from cache_hit_bypasses_pipeline [OF f c, of beta_orch]
  show ?thesis
    by (simp add: cached_entry_def cached_world_def empty_world_def)
qed

lemma heuristic_react:
  "heuristicSkills E (str ''React developer'') = [\<lparr>rs_name = (str ''React''), weight = 0.8\<rparr>]"
  by (simp add: heuristicSkills_def split_ws.simps toLowerCase_def lower_unit_def is_ascii_def str_def is_space_def
      stop_words_def capitalize_def toUpperCase_def upper_unit_def)

lemma scout_react:
  assumes h: "healthy E"
    and v: "vector_search E = (\<lambda>_ _. Inl err)"
    and x: "regexp_i E = literal_regexp"
    and w: "experts (db w) = [python_expert, react_expert]"
  shows "\<exists>w'. ProfileScoutAgent_execute E qid (Some (defaultResult E (str ''React developer'')))
                 (str ''React developer'') w = (Inr [react_expert], w')"
proof -
  obtain qv w3 where qv: "scoutQueryVector E qid (str ''React developer'') w = (Inr qv, w3)"
    using scoutQueryVector_healthy [OF h] by blast
  have vs: "(\<exists>e. aggregate E (scoutMatchStage E (Some (defaultResult E (str ''React developer''))))
                   qv (experts (db w)) = Inl e) \<or>
            aggregate E (scoutMatchStage E (Some (defaultResult E (str ''React developer''))))
                   qv (experts (db w)) = Inr []"
    by (simp add: aggregate_def sbind_def v)
  have rx: "regexp_i E (str ''React'') = Inr (contains_ci (str ''React''))"
    by (simp add: x literal_regexp_def plain_char_def str_def)
  have tq: "textQuery E (Some (defaultResult E (str ''React developer''))) =
      Inr (skills_name_in [contains_ci (str ''React'')])"
    by (simp add: textQuery_def defaultResult_def heuristic_react sbind_def rx)
  have flt: "take 10 (filter (skills_name_in [contains_ci (str ''React'')]) (experts (db w))) =
      [react_expert]"
    unfolding w
    by (simp add: skills_name_in_def python_expert_def react_expert_def contains_react)
  from scout_falls_back [OF h qv vs tq] flt show ?thesis by simp
qed

lemma stages_reach_recommender:
  assumes h: "healthy E"
    and p: "parseQuery E (str ''React developer'') = Inr (defaultResult E (str ''React developer''))"
    and v: "vector_search E = (\<lambda>_ _. Inl err)"
    and x: "regexp_i E = literal_regexp"
    and w: "experts (db w) = [python_expert, react_expert]"
  shows "\<exists>wc. runStages E orch (str ''React developer'') w =
           (case fst (RecommenderAgent_execute E (o_queryId orch) [verify_one react_expert]
                        (str ''React developer'') (Some (defaultResult E (str ''React developer''))) wc) of
              Inl e \<Rightarrow> Inl e
            | Inr ms \<Rightarrow> Inr (defaultResult E (str ''React developer''), ms),
            snd (RecommenderAgent_execute E (o_queryId orch) [verify_one react_expert]
                   (str ''React developer'') (Some (defaultResult E (str ''React developer''))) wc))"
proof -
  obtain wa where a: "QueryAnalystAgent_execute E (o_queryId orch) (str ''React developer'') w =
      (Inr (defaultResult E (str ''React developer'')), wa)"
    using analyst_healthy [OF h p] by blast
  from framesD [OF frames_analyst a] w have wa: "experts (db wa) = [python_expert, react_expert]"
    by (simp add: stage_frame_def)
  obtain wb where b: "ProfileScoutAgent_execute E (o_queryId orch)
      (Some (defaultResult E (str ''React developer''))) (str ''React developer'') wa = (Inr [react_expert], wb)"
    using scout_react [OF h v x wa] by blast
  obtain wc where c: "VerifierAgent_execute E (o_queryId orch) [react_expert] wb =
      (Inr [verify_one react_expert], wc)"
    using verifier_healthy [OF h, of "o_queryId orch" "[react_expert]" wb] by auto
  obtain res wd where d: "RecommenderAgent_execute E (o_queryId orch) [verify_one react_expert]
      (str ''React developer'') (Some (defaultResult E (str ''React developer''))) wc = (res, wd)"
    by (cases "RecommenderAgent_execute E (o_queryId orch) [verify_one react_expert]
      (str ''React developer'') (Some (defaultResult E (str ''React developer''))) wc") auto
  from runStages_steps [OF a b c d] d show ?thesis
    by (intro exI [of _ wc]) simp
qed

lemma parseQuery_offline:
  "parseQuery offline_env q = Inr (defaultResult offline_env q)"
  by (simp add: parseQuery_def parseQuery_chat_def chat_def truthy_def offline_env_def
      scatch_def sbind_def)


theorem stage_failure_marks_failed_witness:
  "(\<exists>w3. processQuery offline_env alpha_orch (str ''React developer'')
           (world_with [python_expert, react_expert]) =
           (Inl (Error (str ''FIREWORKS_API_KEY not set'')), w3) \<and>
         (\<exists>r. find (\<lambda>x. queryId x = (str ''query_1'')) (queries (db w3)) = Some r \<and>
              q_status r = Failed \<and> rawQuery r = (str ''React developer'')) \<and>
         agent_tasks (db w3) = [newTaskRecord alpha_orch 1000] \<and>
         t_status (newTaskRecord alpha_orch 1000) = In_progress \<and>
         cache_search_results (db w3) = []) \<and>
   (\<exists>w3. processQuery outage_env alpha_orch (str ''React developer'') empty_world =
           (Inl (StoreError (str ''5'')), w3) \<and>
         (\<exists>r. find (\<lambda>x. queryId x = (str ''query_1'')) (queries (db w3)) = Some r \<and>
              q_status r = Processing \<and> rawQuery r = (str ''React developer'')) \<and>
         agent_tasks (db w3) = [newTaskRecord alpha_orch 1000] \<and>
         cache_search_results (db w3) = [])"
proof -
  let ?w = "world_with [python_expert, react_expert]"
  let ?q = "(str ''React developer'')"
  have f: "\<And>n. store_fault offline_env n = None" by (simp add: offline_env_def)
  have miss: "find (\<lambda>c. queryHash c = computeQueryHash offline_env ?q \<and> expiresAt c > clock ?w)
                 (cache_search_results (db ?w)) = None"
    by (simp add: world_with_def empty_world_def empty_db_def)
  have x: "experts (db (pipeline_start alpha_orch ?q ?w)) = [python_expert, react_expert]"
    by (simp add: pipeline_start_def world_with_def)
  have v: "vector_search offline_env = (\<lambda>_ _. Inl (Error (str ''vector search is not available'')))"
    and rx: "regexp_i offline_env = literal_regexp"
    and k: "fireworks_api_key offline_env = None"
    by (simp_all add: offline_env_def)
  from stages_reach_recommender [OF healthy_offline parseQuery_offline v rx x, of alpha_orch]
  obtain wc where s: "runStages offline_env alpha_orch ?q (pipeline_start alpha_orch ?q ?w) =
           (case fst (RecommenderAgent_execute offline_env (o_queryId alpha_orch)
                        [verify_one react_expert] ?q (Some (defaultResult offline_env ?q)) wc) of
              Inl e \<Rightarrow> Inl e
            | Inr ms \<Rightarrow> Inr (defaultResult offline_env ?q, ms),
            snd (RecommenderAgent_execute offline_env (o_queryId alpha_orch)
                   [verify_one react_expert] ?q (Some (defaultResult offline_env ?q)) wc))"
    by blast
  from recommender_without_key [OF healthy_offline k, of "[verify_one react_expert]"
      "o_queryId alpha_orch" ?q "Some (defaultResult offline_env ?q)" wc]
  obtain wd where "RecommenderAgent_execute offline_env (o_queryId alpha_orch)
      [verify_one react_expert] ?q (Some (defaultResult offline_env ?q)) wc =
      (Inl (Error (str ''FIREWORKS_API_KEY not set'')), wd)"
    by auto
  with s have stage: "runStages offline_env alpha_orch ?q (pipeline_start alpha_orch ?q ?w) =
      (Inl (Error (str ''FIREWORKS_API_KEY not set'')), wd)"
    by simp
  have fresh: "o_queryId alpha_orch \<notin> set (map queryId (queries (db ?w)))"
    by (simp add: world_with_def empty_db_def)
  from stage_failure_marks_failed [OF f f f f miss stage] f fresh
  have a: "\<exists>w3. processQuery offline_env alpha_orch ?q ?w =
           (Inl (Error (str ''FIREWORKS_API_KEY not set'')), w3) \<and>
         (\<exists>r. find (\<lambda>x. queryId x = (str ''query_1'')) (queries (db w3)) = Some r \<and>
              q_status r = Failed \<and> rawQuery r = ?q) \<and>
         agent_tasks (db w3) = [newTaskRecord alpha_orch 1000] \<and>
         t_status (newTaskRecord alpha_orch 1000) = In_progress \<and>
         cache_search_results (db w3) = []"
    by (simp add: alpha_orch_def world_with_def empty_world_def empty_db_def)
  have g: "store_fault outage_env (ops empty_world) = None"
    "store_fault outage_env (ops empty_world + 1) = None"
    "store_fault outage_env (ops empty_world + 2) = None"
    "store_fault outage_env (ops empty_world + 3) = None"
    by (simp_all add: outage_env_def empty_world_def)
  have miss': "find (\<lambda>c. queryHash c = computeQueryHash outage_env ?q \<and>
                          expiresAt c > clock empty_world)
                 (cache_search_results (db empty_world)) = None"
    by (simp add: empty_world_def empty_db_def)
  have rej: "store_fault outage_env (ops ((pipeline_start alpha_orch ?q empty_world)\<lparr>ops := 5\<rparr>)) =
      Some (StoreError (str ''5''))"
    by (simp add: outage_env_def show_nat.simps str_def)
  have fresh': "o_queryId alpha_orch \<notin> set (map queryId (queries (db empty_world)))"
    by (simp add: empty_world_def empty_db_def)
  from stage_failure_marks_failed [OF g miss' stage_outage] rej
  obtain w3 where p3: "processQuery outage_env alpha_orch ?q empty_world =
        (Inl (StoreError (str ''5'')), w3)"
    and r3: "\<exists>r. find (\<lambda>x. queryId x = o_queryId alpha_orch) (queries (db w3)) = Some r \<and>
                (o_queryId alpha_orch \<notin> set (map queryId (queries (db empty_world))) \<longrightarrow>
                   q_status r = Processing \<and> rawQuery r = ?q)"
    and t3: "agent_tasks (db w3) =
               agent_tasks (db empty_world) @ [newTaskRecord alpha_orch (clock empty_world)]"
    and c3: "cache_search_results (db w3) = cache_search_results (db empty_world)"
    by blast
  from r3 fresh' obtain r where
    r: "find (\<lambda>x. queryId x = o_queryId alpha_orch) (queries (db w3)) = Some r"
      "q_status r = Processing" "rawQuery r = ?q"
    by blast
  have b: "\<exists>w3. processQuery outage_env alpha_orch ?q empty_world =
           (Inl (StoreError (str ''5'')), w3) \<and>
         (\<exists>r. find (\<lambda>x. queryId x = (str ''query_1'')) (queries (db w3)) = Some r \<and>
              q_status r = Processing \<and> rawQuery r = ?q) \<and>
         agent_tasks (db w3) = [newTaskRecord alpha_orch 1000] \<and>
         cache_search_results (db w3) = []"
    using p3 r t3 c3
    by (intro exI [of _ w3]) (simp add: alpha_orch_def empty_world_def empty_db_def)
  from a b show ?thesis by (intro conjI)
qed



end
